theory Spec2Isabelle
  imports Complex_Main "HOL-Library.Sublist"
begin

section \<open>The deploy-test HTTP service (index.js)\<close>

text \<open>
  The service is an Express application: a stack of layers, registered in this order by
  index.js, through which every request runs until one layer responds.
  \<^enum> \<^verbatim>\<open>app.use(express.static('public'))\<close>
  \<^enum> \<^verbatim>\<open>app.use(express.json())\<close>
  \<^enum> \<^verbatim>\<open>app.get('/', ...)\<close>
  \<^enum> \<^verbatim>\<open>app.get('/api/info', ...)\<close>
  \<^enum> \<^verbatim>\<open>app.get('/api/greet/:name', ...)\<close>
  \<^enum> \<^verbatim>\<open>app.post('/api/echo', ...)\<close>
  \<^enum> \<^verbatim>\<open>app.use((req, res) => res.status(404).sendFile(...))\<close>

  The handlers are translated from index.js. What they call into (the router, the two
  stock middlewares, \<^verbatim>\<open>Date.prototype.toISOString\<close>, \<^verbatim>\<open>decodeURIComponent\<close>) is
  modelled after the documented default behaviour of Express and of ECMAScript; what
  depends on the machine (environment variables, the files on disk, the clock, the
  runtime version, the entity tags and byte ranges that the framework computes) is a
  parameter. Strings are byte strings: a JavaScript string is represented by its UTF-8
  encoding.
\<close>

subsection \<open>JSON values\<close>

text \<open>
  The value \<^verbatim>\<open>JSON.parse\<close> returns. An object keeps its properties in insertion order.
  A number is a double: \<^verbatim>\<open>JSON.parse\<close> never returns \<^verbatim>\<open>NaN\<close>, but it returns \<^verbatim>\<open>-0\<close>
  for the literal \<^verbatim>\<open>-0\<close> and an infinity for a literal beyond the range of doubles
  (\<^verbatim>\<open>1e999\<close>).
\<close>

datatype number = Finite real | MinusZero | PlusInfinity | MinusInfinity

datatype json =
    JNull
  | JBool bool
  | JNumber number
  | JString string
  | JArray "json list"
  | JObject "(string \<times> json) list"

text \<open>
  The value that a client reads back after \<^verbatim>\<open>res.json\<close> has written a value with
  \<^verbatim>\<open>JSON.stringify\<close>: an infinity is written as \<^verbatim>\<open>null\<close> and \<^verbatim>\<open>-0\<close> as \<^verbatim>\<open>0\<close>.
\<close>

primrec stringified :: "json \<Rightarrow> json" where
  "stringified JNull = JNull"
| "stringified (JBool b) = JBool b"
| "stringified (JNumber n) =
     (case n of
        Finite r \<Rightarrow> JNumber (Finite r)
      | MinusZero \<Rightarrow> JNumber (Finite 0)
      | PlusInfinity \<Rightarrow> JNull
      | MinusInfinity \<Rightarrow> JNull)"
| "stringified (JString s) = JString s"
| "stringified (JArray vs) = JArray (map stringified vs)"
| "stringified (JObject fs) = JObject (map (map_prod id stringified) fs)"

subsection \<open>The clock: \<^verbatim>\<open>new Date().toISOString()\<close>\<close>

text \<open>
  A time value is the number of milliseconds since 1970-01-01T00:00:00Z, as \<^verbatim>\<open>new Date()\<close>
  reads it from the clock. The functions below are those of ECMA-262, section
  "Time Values and Time Range", under their names there. \<open>div\<close> on \<open>int\<close> is the floor
  division and \<open>mod\<close> the non-negative remainder that the standard uses.
\<close>

type_synonym time = int

definition msPerDay :: int where
  "msPerDay = 86400000"

definition Day :: "time \<Rightarrow> int" where
  "Day t = t div msPerDay"

definition DayFromYear :: "int \<Rightarrow> int" where
  "DayFromYear y =
     365 * (y - 1970) + (y - 1969) div 4 - (y - 1901) div 100 + (y - 1601) div 400"

text \<open>
  ECMA-262 defines \<^verbatim>\<open>YearFromTime(t)\<close> as the largest year \<open>y\<close> with
  \<^verbatim>\<open>TimeFromYear(y) \<le> t\<close>. It is computed here from the mean length of the Gregorian year
  (365.2425 days), which is off by at most one year, and then adjusted; lemma
  \<open>YearFromTime_largest\<close> below shows that the result is the year of the standard.
\<close>

definition YearFromDay :: "int \<Rightarrow> int" where
  "YearFromDay d =
     (let y = 1970 + (d * 10000) div 3652425 in
      if d < DayFromYear y then y - 1
      else if DayFromYear (y + 1) \<le> d then y + 1
      else y)"

definition YearFromTime :: "time \<Rightarrow> int" where
  "YearFromTime t = YearFromDay (Day t)"

definition DaysInYear :: "int \<Rightarrow> int" where
  "DaysInYear y =
     (if y mod 4 \<noteq> 0 then 365
      else if y mod 100 \<noteq> 0 then 366
      else if y mod 400 \<noteq> 0 then 365
      else 366)"

definition InLeapYear :: "time \<Rightarrow> int" where
  "InLeapYear t = (if DaysInYear (YearFromTime t) = 366 then 1 else 0)"

definition DayWithinYear :: "time \<Rightarrow> int" where
  "DayWithinYear t = Day t - DayFromYear (YearFromTime t)"

definition MonthFromTime :: "time \<Rightarrow> int" where
  "MonthFromTime t =
     (let d = DayWithinYear t; l = InLeapYear t in
      if d < 31 then 0
      else if d < 59 + l then 1
      else if d < 90 + l then 2
      else if d < 120 + l then 3
      else if d < 151 + l then 4
      else if d < 181 + l then 5
      else if d < 212 + l then 6
      else if d < 243 + l then 7
      else if d < 273 + l then 8
      else if d < 304 + l then 9
      else if d < 334 + l then 10
      else 11)"

definition DateFromTime :: "time \<Rightarrow> int" where
  "DateFromTime t =
     (let d = DayWithinYear t; l = InLeapYear t; m = MonthFromTime t in
      if m = 0 then d + 1
      else if m = 1 then d - 30
      else if m = 2 then d - 58 - l
      else if m = 3 then d - 89 - l
      else if m = 4 then d - 119 - l
      else if m = 5 then d - 150 - l
      else if m = 6 then d - 180 - l
      else if m = 7 then d - 211 - l
      else if m = 8 then d - 242 - l
      else if m = 9 then d - 272 - l
      else if m = 10 then d - 303 - l
      else d - 333 - l)"

definition HourFromTime :: "time \<Rightarrow> int" where
  "HourFromTime t = (t div 3600000) mod 24"

definition MinFromTime :: "time \<Rightarrow> int" where
  "MinFromTime t = (t div 60000) mod 60"

definition SecFromTime :: "time \<Rightarrow> int" where
  "SecFromTime t = (t div 1000) mod 60"

definition msFromTime :: "time \<Rightarrow> int" where
  "msFromTime t = t mod 1000"

text \<open>Decimal digits, padded with zeros on the left to a fixed width.\<close>

definition digit :: "int \<Rightarrow> char" where
  "digit v = ''0123456789'' ! nat (v mod 10)"

fun pad :: "nat \<Rightarrow> int \<Rightarrow> string" where
  "pad 0 v = []"
| "pad (Suc n) v = pad n (v div 10) @ [digit v]"

text \<open>
  \<^verbatim>\<open>Date.prototype.toISOString\<close>: \<^verbatim>\<open>YYYY-MM-DDTHH:mm:ss.sssZ\<close> in UTC, with the expanded
  year \<^verbatim>\<open>\<plusminus>YYYYYY\<close> outside the years 0 to 9999. (It throws only for an invalid date, which
  \<^verbatim>\<open>new Date()\<close> never is.)
\<close>

definition year_text :: "int \<Rightarrow> string" where
  "year_text y =
     (if 0 \<le> y \<and> y \<le> 9999 then pad 4 y
      else (if y < 0 then ''-'' else ''+'') @ pad 6 \<bar>y\<bar>)"

definition toISOString :: "time \<Rightarrow> string" where
  "toISOString t =
     year_text (YearFromTime t) @ ''-'' @ pad 2 (MonthFromTime t + 1) @ ''-'' @
     pad 2 (DateFromTime t) @ ''T'' @ pad 2 (HourFromTime t) @ '':'' @
     pad 2 (MinFromTime t) @ '':'' @ pad 2 (SecFromTime t) @ ''.'' @
     pad 3 (msFromTime t) @ ''Z''"

subsection \<open>Requests, responses and the process environment\<close>

datatype meth = GET | HEAD | POST | PUT | DELETE | PATCH | OPTIONS

text \<open>
  What the client sent as the request body, as \<^verbatim>\<open>express.json()\<close> tells the cases apart:
  no body at all (neither \<^verbatim>\<open>Content-Length\<close> nor \<^verbatim>\<open>Transfer-Encoding\<close>), or a body with
  its media type (\<open>True\<close> when \<^verbatim>\<open>Content-Type\<close> is \<^verbatim>\<open>application/json\<close>) and its text. The
  body is one that the parser refuses unread (over its limit of 100 kilobytes, or in a
  charset or content encoding that it does not support), or its text is empty, or is not
  JSON, or is the JSON text of a value.
\<close>

datatype content = Oversized | Unsupported | EmptyText | InvalidText | JsonText json

datatype entity = NoEntity | Entity bool content

text \<open>
  Express's \<^verbatim>\<open>req\<close>. \<open>path\<close> is \<^verbatim>\<open>req.path\<close>, the request target without its query
  string. \<open>headers\<close> is \<^verbatim>\<open>req.headers\<close> without the headers that describe the body: the
  names in lower case, as Node gives them, each with its value. \<open>body\<close> is \<^verbatim>\<open>req.body\<close>
  and \<open>params\<close> is \<^verbatim>\<open>req.params\<close>; \<open>None\<close> stands for \<^verbatim>\<open>undefined\<close>. Both are filled in
  by the framework on the way to a handler.
\<close>

record request =
  meth :: meth
  path :: string
  headers :: "(string \<times> string) list"
  entity :: entity
  body :: "json option"
  params :: "string \<rightharpoonup> string"

text \<open>A request as it arrives, without any of the headers above.\<close>

definition incoming :: "meth \<Rightarrow> string \<Rightarrow> entity \<Rightarrow> request" where
  "incoming m p e =
     \<lparr>meth = m, path = p, headers = [], entity = e, body = None, params = Map.empty\<rparr>"

text \<open>
  A request is unconditional when it carries neither \<^verbatim>\<open>If-None-Match\<close> nor
  \<^verbatim>\<open>If-Modified-Since\<close>, and plain when it carries no precondition and no \<^verbatim>\<open>Range\<close>.
\<close>

definition header :: "request \<Rightarrow> string \<Rightarrow> string option" where
  "header rq name = map_of (headers rq) name"

definition unconditional :: "request \<Rightarrow> bool" where
  "unconditional rq =
     (header rq ''if-none-match'' = None \<and> header rq ''if-modified-since'' = None)"

definition plain :: "request \<Rightarrow> bool" where
  "plain rq =
     (unconditional rq \<and> header rq ''if-match'' = None \<and>
      header rq ''if-unmodified-since'' = None \<and> header rq ''range'' = None)"

text \<open>
  What the running process finds around it. \<open>env\<close> is \<^verbatim>\<open>process.env\<close>, \<open>node_version\<close> is
  \<^verbatim>\<open>process.version\<close>. \<open>static_file p\<close> is the file that \<^verbatim>\<open>express.static('public')\<close>
  finds for request path \<open>p\<close> (after its own decoding and index-document rules), \<open>None\<close>
  when it finds none. \<open>public_file n\<close> is the content of \<^verbatim>\<open>__dirname/public/n\<close>, which
  \<^verbatim>\<open>res.sendFile\<close> reads. index.js does not fix the version of Express:
  \<open>unparsed_body\<close> is the \<^verbatim>\<open>req.body\<close> of a request that the JSON parser leaves alone,
  \<^verbatim>\<open>{}\<close> in Express 4 and \<^verbatim>\<open>undefined\<close> in Express 5. \<open>validators_fresh hs v\<close> is the
  verdict of Express's freshness check on the request headers \<open>hs\<close> against the entity
  tag that it computes (a hash) for the JSON body \<open>v\<close>. \<open>send_outcome hs st doc\<close> is what
  the \<^verbatim>\<open>send\<close> library makes of the file \<open>doc\<close> for a request with headers \<open>hs\<close> when the
  status set so far is \<open>st\<close>: its verdict on the preconditions and the range against the
  file's entity tag, modification time and length.
\<close>

datatype sent = Whole | Part string | NotModified | Failed nat

record server =
  env :: "string \<rightharpoonup> string"
  node_version :: string
  static_file :: "string \<rightharpoonup> string"
  public_file :: "string \<rightharpoonup> string"
  unparsed_body :: "json option"
  validators_fresh :: "(string \<times> string) list \<Rightarrow> json \<Rightarrow> bool"
  send_outcome :: "(string \<times> string) list \<Rightarrow> nat \<Rightarrow> string \<Rightarrow> sent"

text \<open>
  A response: a JSON document (\<^verbatim>\<open>res.json\<close>), a file (\<^verbatim>\<open>res.sendFile\<close>, the static
  middleware), or the page that Express's final handler writes for an error or for a
  request that no layer answered, or nothing (status 304). It is what the layer hands to
  Node; to a HEAD request Node sends its status and headers only. A JSON document is
  given as the value that the client reads.
\<close>

datatype payload = Json json | File string | DefaultPage | Empty

record response =
  status :: nat
  payload :: payload

text \<open>
  What a layer does with a request: it responds, or calls \<^verbatim>\<open>next()\<close> (perhaps after
  changing \<^verbatim>\<open>req\<close>), or calls \<^verbatim>\<open>next(err)\<close> with an error that carries an HTTP status.
\<close>

datatype step = Respond response | Next request | Throw nat

type_synonym handler = "server \<Rightarrow> time \<Rightarrow> request \<Rightarrow> step"

subsection \<open>Framework: response helpers\<close>

text \<open>
  \<^verbatim>\<open>res.json(obj)\<close> with the status set so far. \<^verbatim>\<open>JSON.stringify\<close> leaves out a property
  whose value is \<^verbatim>\<open>undefined\<close>.
\<close>

fun defined_fields :: "(string \<times> json option) list \<Rightarrow> (string \<times> json) list" where
  "defined_fields [] = []"
| "defined_fields ((k, None) # fs) = defined_fields fs"
| "defined_fields ((k, Some v) # fs) = (k, v) # defined_fields fs"

text \<open>
  \<^verbatim>\<open>req.fresh\<close>, which \<^verbatim>\<open>res.send\<close> consults: only a GET or HEAD request about to get a
  2xx status (or 304) can be fresh, an unconditional request never is, and a request whose only
  validator is \<^verbatim>\<open>If-None-Match: *\<close> always is (unless it says \<^verbatim>\<open>Cache-Control\<close>). For
  the rest the entity tag decides.
\<close>

definition fresh :: "server \<Rightarrow> request \<Rightarrow> nat \<Rightarrow> json \<Rightarrow> bool" where
  "fresh srv rq st v =
     ((meth rq = GET \<or> meth rq = HEAD) \<and> (200 \<le> st \<and> st < 300 \<or> st = 304) \<and>
      \<not> unconditional rq \<and>
      (if header rq ''if-none-match'' = Some ''*'' \<and> header rq ''if-modified-since'' = None \<and>
          header rq ''cache-control'' = None
       then True
       else validators_fresh srv (headers rq) v))"

text \<open>A fresh request is answered with status 304 and no body.\<close>

definition res_json :: "server \<Rightarrow> request \<Rightarrow> nat \<Rightarrow> (string \<times> json option) list \<Rightarrow> step" where
  "res_json srv rq st fs =
     (let v = stringified (JObject (defined_fields fs)) in
      if fresh srv rq st v then Respond \<lparr>status = 304, payload = Empty\<rparr>
      else Respond \<lparr>status = st, payload = Json v\<rparr>)"

text \<open>
  The \<^verbatim>\<open>send\<close> library, through which both \<^verbatim>\<open>res.sendFile\<close> and the static middleware
  write a file. A plain request gets the whole file with the status set so far. For any
  other request the library's verdict decides, whatever that status is: the whole file,
  a part of it with status 206, status 304 without a body, or an error (412 for a failed
  precondition, 416 for a range outside the file).
\<close>

definition send :: "server \<Rightarrow> request \<Rightarrow> nat \<Rightarrow> string \<Rightarrow> step" where
  "send srv rq st doc =
     (if plain rq then Respond \<lparr>status = st, payload = File doc\<rparr>
      else (case send_outcome srv (headers rq) st doc of
              Whole \<Rightarrow> Respond \<lparr>status = st, payload = File doc\<rparr>
            | Part bytes \<Rightarrow> Respond \<lparr>status = 206, payload = File bytes\<rparr>
            | NotModified \<Rightarrow> Respond \<lparr>status = 304, payload = Empty\<rparr>
            | Failed e \<Rightarrow> Throw e))"

text \<open>
  \<^verbatim>\<open>res.sendFile(path.join(__dirname, 'public', name))\<close> with the status set so far. A
  missing file, like any error of \<^verbatim>\<open>send\<close>, is passed to \<^verbatim>\<open>next\<close>; its status is 404.
\<close>

definition sendFile :: "server \<Rightarrow> request \<Rightarrow> nat \<Rightarrow> string \<Rightarrow> step" where
  "sendFile srv rq st name =
     (case public_file srv name of
        None \<Rightarrow> Throw 404
      | Some doc \<Rightarrow> send srv rq st doc)"

text \<open>
  Express's final handler, reached when the stack is exhausted: the error's status, or
  404 when there is no error.
\<close>

definition finalhandler :: "nat option \<Rightarrow> response" where
  "finalhandler err =
     \<lparr>status = (case err of None \<Rightarrow> 404 | Some st \<Rightarrow> st), payload = DefaultPage\<rparr>"

subsection \<open>Framework: the two stock middlewares\<close>

text \<open>
  \<^verbatim>\<open>express.static('public')\<close>: answers GET and HEAD requests for which it finds a file,
  and passes every other request on. It falls through, too, when \<^verbatim>\<open>send\<close> fails with a
  client error.
\<close>

definition express_static :: handler where
  "express_static srv now rq =
     (if meth rq = GET \<or> meth rq = HEAD then
        (case static_file srv (path rq) of
           None \<Rightarrow> Next rq
         | Some doc \<Rightarrow>
             (case send srv rq 200 doc of
                Throw e \<Rightarrow> if e < 500 then Next rq else Throw e
              | answer \<Rightarrow> answer))
      else Next rq)"

text \<open>
  \<^verbatim>\<open>express.json()\<close> with its default options (\<^verbatim>\<open>type: 'application/json'\<close>,
  \<^verbatim>\<open>strict: true\<close>), in the order of the parser's own steps:
  \<^enum> a request without a body is passed on unparsed;
  \<^enum> so is a request whose media type is not JSON;
  \<^enum> a body in an unsupported charset or content encoding is an error of status 415, and
    a body over the limit an error of status 413;
  \<^enum> the text is read, and an empty text is taken for \<^verbatim>\<open>{}\<close>;
  \<^enum> in strict mode only a text whose first character after white space is \<^verbatim>\<open>{\<close> or
    \<^verbatim>\<open>[\<close>, an object or an array, is handed to \<^verbatim>\<open>JSON.parse\<close>; any other text is an
    error of status 400;
  \<^enum> a text that \<^verbatim>\<open>JSON.parse\<close> rejects is an error of status 400.
\<close>

fun strict_json :: "json \<Rightarrow> bool" where
  "strict_json (JObject fs) = True"
| "strict_json (JArray vs) = True"
| "strict_json v = False"

definition express_json :: handler where
  "express_json srv now rq =
     (case entity rq of
        NoEntity \<Rightarrow> Next (rq\<lparr>body := unparsed_body srv\<rparr>)
      | Entity is_json text \<Rightarrow>
          if \<not> is_json then Next (rq\<lparr>body := unparsed_body srv\<rparr>)
          else (case text of
                  Oversized \<Rightarrow> Throw 413
                | Unsupported \<Rightarrow> Throw 415
                | EmptyText \<Rightarrow> Next (rq\<lparr>body := Some (JObject [])\<rparr>)
                | InvalidText \<Rightarrow> Throw 400
                | JsonText v \<Rightarrow>
                    if strict_json v then Next (rq\<lparr>body := Some v\<rparr>) else Throw 400))"

subsection \<open>Framework: \<^verbatim>\<open>decodeURIComponent\<close>\<close>

text \<open>
  The router decodes every path parameter with \<^verbatim>\<open>decodeURIComponent\<close>. Each \<^verbatim>\<open>%XY\<close>
  must be followed by two hexadecimal digits, and the bytes written as escapes must be
  well-formed UTF-8 (Unicode, table 3-7), each byte of a sequence an escape of its own;
  otherwise the function throws \<^verbatim>\<open>URIError\<close>, here \<open>None\<close>. Every other character stands
  for itself.
\<close>

definition hex_digit :: "char \<Rightarrow> (bool \<times> bool \<times> bool \<times> bool) option" where
  "hex_digit = map_of
     [(CHR ''0'', (False, False, False, False)), (CHR ''1'', (True, False, False, False)),
      (CHR ''2'', (False, True, False, False)), (CHR ''3'', (True, True, False, False)),
      (CHR ''4'', (False, False, True, False)), (CHR ''5'', (True, False, True, False)),
      (CHR ''6'', (False, True, True, False)), (CHR ''7'', (True, True, True, False)),
      (CHR ''8'', (False, False, False, True)), (CHR ''9'', (True, False, False, True)),
      (CHR ''a'', (False, True, False, True)), (CHR ''b'', (True, True, False, True)),
      (CHR ''c'', (False, False, True, True)), (CHR ''d'', (True, False, True, True)),
      (CHR ''e'', (False, True, True, True)), (CHR ''f'', (True, True, True, True)),
      (CHR ''A'', (False, True, False, True)), (CHR ''B'', (True, True, False, True)),
      (CHR ''C'', (False, False, True, True)), (CHR ''D'', (True, False, True, True)),
      (CHR ''E'', (False, True, True, True)), (CHR ''F'', (True, True, True, True))]"

text \<open>The byte written \<^verbatim>\<open>%hl\<close>; the bits of a digit are listed from the lowest.\<close>

definition escape :: "char \<Rightarrow> char \<Rightarrow> char option" where
  "escape h l =
     (case hex_digit h of
        None \<Rightarrow> None
      | Some (h0, h1, h2, h3) \<Rightarrow>
          (case hex_digit l of
             None \<Rightarrow> None
           | Some (l0, l1, l2, l3) \<Rightarrow> Some (Char l0 l1 l2 l3 h0 h1 h2 h3)))"

datatype tok = Plain char | Escaped char

fun tokens :: "string \<Rightarrow> tok list option" where
  "tokens [] = Some []"
| "tokens (c # cs) =
     (if c = CHR ''%'' then
        (case cs of
           h # l # rest \<Rightarrow>
             (case escape h l of
                None \<Rightarrow> None
              | Some b \<Rightarrow> map_option ((#) (Escaped b)) (tokens rest))
         | _ \<Rightarrow> None)
      else map_option ((#) (Plain c)) (tokens cs))"

definition between :: "nat \<Rightarrow> char \<Rightarrow> nat \<Rightarrow> bool" where
  "between lo b hi = (lo \<le> of_char b \<and> (of_char b :: nat) \<le> hi)"

text \<open>The second byte's range after lead byte \<open>b\<close> of a three- or four-byte sequence.\<close>

definition second_ok :: "char \<Rightarrow> char \<Rightarrow> bool" where
  "second_ok b b1 =
     (if of_char b = (0xE0 :: nat) then between 0xA0 b1 0xBF
      else if of_char b = (0xED :: nat) then between 0x80 b1 0x9F
      else if of_char b = (0xF0 :: nat) then between 0x90 b1 0xBF
      else if of_char b = (0xF4 :: nat) then between 0x80 b1 0x8F
      else between 0x80 b1 0xBF)"

fun utf8 :: "tok list \<Rightarrow> string option" where
  "utf8 [] = Some []"
| "utf8 (Plain c # ts) = map_option ((#) c) (utf8 ts)"
| "utf8 (Escaped b # ts) =
     (if between 0x00 b 0x7F then map_option ((#) b) (utf8 ts)
      else if between 0xC2 b 0xDF then
        (case ts of
           Escaped b1 # ts1 \<Rightarrow>
             if between 0x80 b1 0xBF then map_option (\<lambda>s. b # b1 # s) (utf8 ts1) else None
         | _ \<Rightarrow> None)
      else if between 0xE0 b 0xEF then
        (case ts of
           Escaped b1 # Escaped b2 # ts2 \<Rightarrow>
             if second_ok b b1 \<and> between 0x80 b2 0xBF
             then map_option (\<lambda>s. b # b1 # b2 # s) (utf8 ts2) else None
         | _ \<Rightarrow> None)
      else if between 0xF0 b 0xF4 then
        (case ts of
           Escaped b1 # Escaped b2 # Escaped b3 # ts3 \<Rightarrow>
             if second_ok b b1 \<and> between 0x80 b2 0xBF \<and> between 0x80 b3 0xBF
             then map_option (\<lambda>s. b # b1 # b2 # b3 # s) (utf8 ts3) else None
         | _ \<Rightarrow> None)
      else None)"

definition decodeURIComponent :: "string \<Rightarrow> string option" where
  "decodeURIComponent s = (case tokens s of None \<Rightarrow> None | Some ts \<Rightarrow> utf8 ts)"

subsection \<open>Framework: matching a route's path\<close>

text \<open>
  Express compiles a route's path into a regular expression that is not case sensitive
  and allows one trailing slash: \<^verbatim>\<open>'/api/greet/:name'\<close> becomes
  \<^verbatim>\<open>/^\/api\/greet\/(?:([^\/]+?))\/?$/i\<close>. So the request path matches when, cut at the
  slashes, it has the pattern's segments: a literal segment up to the case of letters,
  and any non-empty segment for a parameter \<^verbatim>\<open>:key\<close>.
\<close>

definition lower :: "char \<Rightarrow> char" where
  "lower c =
     (case map_of (zip ''ABCDEFGHIJKLMNOPQRSTUVWXYZ'' ''abcdefghijklmnopqrstuvwxyz'') c of
        None \<Rightarrow> c
      | Some l \<Rightarrow> l)"

fun split :: "char \<Rightarrow> string \<Rightarrow> string list" where
  "split sep [] = [[]]"
| "split sep (c # cs) =
     (if c = sep then [] # split sep cs
      else (case split sep cs of [] \<Rightarrow> [[c]] | s # ss \<Rightarrow> (c # s) # ss))"

text \<open>
  The segments after the leading slash, without the empty segment that one trailing
  slash leaves; \<open>None\<close> for a path that does not start with a slash (the empty path
  apart, which the optional slash of \<^verbatim>\<open>/^\/?$/\<close> admits).
\<close>

definition segments :: "string \<Rightarrow> string list option" where
  "segments p =
     (case split CHR ''/'' p of
        [] \<Rightarrow> None
      | first # rest \<Rightarrow>
          if first \<noteq> [] then None
          else if rest \<noteq> [] \<and> last rest = [] then Some (butlast rest)
          else Some rest)"

fun match_segments :: "string list \<Rightarrow> string list \<Rightarrow> (string \<times> string) list option" where
  "match_segments [] [] = Some []"
| "match_segments (p # ps) (s # ss) =
     (case p of
        [] \<Rightarrow> (if s = [] then match_segments ps ss else None)
      | c # key \<Rightarrow>
          if c = CHR '':'' then
            (if s = [] then None else map_option ((#) (key, s)) (match_segments ps ss))
          else if map lower p = map lower s then match_segments ps ss
          else None)"
| "match_segments ps ss = None"

text \<open>
  The decoded parameters; a parameter that does not decode makes the match fail with an
  error (of status 400) instead.
\<close>

fun decode_params :: "(string \<times> string) list \<Rightarrow> (string \<times> string) list option" where
  "decode_params [] = Some []"
| "decode_params ((k, v) # kvs) =
     (case decodeURIComponent v of
        None \<Rightarrow> None
      | Some d \<Rightarrow> map_option ((#) (k, d)) (decode_params kvs))"

datatype matched = NoMatch | BadParam | Params "(string \<times> string) list"

definition match_path :: "string \<Rightarrow> string \<Rightarrow> matched" where
  "match_path pattern p =
     (case segments pattern of
        None \<Rightarrow> NoMatch
      | Some ps \<Rightarrow>
          (case segments p of
             None \<Rightarrow> NoMatch
           | Some ss \<Rightarrow>
               (case match_segments ps ss of
                  None \<Rightarrow> NoMatch
                | Some raw \<Rightarrow>
                    (case decode_params raw of
                       None \<Rightarrow> BadParam
                     | Some kvs \<Rightarrow> Params kvs))))"

subsection \<open>Framework: the router\<close>

text \<open>
  A layer is a middleware mounted with \<^verbatim>\<open>app.use(fn)\<close>, which sees every request, or a
  route registered with \<^verbatim>\<open>app.get(path, fn)\<close> or \<^verbatim>\<open>app.post(path, fn)\<close>. A route
  registered for GET also serves HEAD.
\<close>

datatype layer = Use handler | Route meth string handler

definition handles_method :: "meth \<Rightarrow> meth \<Rightarrow> bool" where
  "handles_method registered m = (m = registered \<or> (m = HEAD \<and> registered = GET))"

text \<open>
  The router's \<^verbatim>\<open>next\<close>: the layers are tried in the order of their registration,
  \<open>err\<close> being the pending error. A route is tried on its path first (a parameter that
  does not decode becomes the pending error), then on its method. While an error is
  pending no route matches and no ordinary middleware runs (none of this application's
  middlewares is an error handler), so the error reaches the final handler.
\<close>

fun dispatch :: "layer list \<Rightarrow> server \<Rightarrow> time \<Rightarrow> nat option \<Rightarrow> request \<Rightarrow> response" where
  "dispatch [] srv now err rq = finalhandler err"
| "dispatch (Use h # ls) srv now err rq =
     (case err of
        Some e \<Rightarrow> dispatch ls srv now err rq
      | None \<Rightarrow>
          (case h srv now rq of
             Respond r \<Rightarrow> r
           | Next rq' \<Rightarrow> dispatch ls srv now None rq'
           | Throw e \<Rightarrow> dispatch ls srv now (Some e) rq))"
| "dispatch (Route m pattern h # ls) srv now err rq =
     (case match_path pattern (path rq) of
        NoMatch \<Rightarrow> dispatch ls srv now err rq
      | BadParam \<Rightarrow>
          dispatch ls srv now (case err of None \<Rightarrow> Some 400 | Some e \<Rightarrow> Some e) rq
      | Params kvs \<Rightarrow>
          (case err of
             Some e \<Rightarrow> dispatch ls srv now err rq
           | None \<Rightarrow>
               if \<not> handles_method m (meth rq) then dispatch ls srv now None rq
               else (case h srv now (rq\<lparr>params := map_of kvs\<rparr>) of
                       Respond r \<Rightarrow> r
                     | Next rq' \<Rightarrow> dispatch ls srv now None rq'
                     | Throw e \<Rightarrow> dispatch ls srv now (Some e) rq)))"

subsection \<open>index.js\<close>

text \<open>JavaScript's \<^verbatim>\<open>v || d\<close> for a \<open>v\<close> that is a string or \<^verbatim>\<open>undefined\<close>: both
  \<^verbatim>\<open>undefined\<close> and the empty string are falsy.\<close>

definition or_default :: "string option \<Rightarrow> string \<Rightarrow> string" where
  "or_default v d = (case v of None \<Rightarrow> d | Some s \<Rightarrow> if s = [] then d else s)"

text \<open>\<^verbatim>\<open>const PORT = process.env.PORT || 3000;\<close> is the variable's string, or the number
  3000.\<close>

datatype port = PortNumber nat | PortString string

definition PORT :: "server \<Rightarrow> port" where
  "PORT srv =
     (case env srv ''PORT'' of
        None \<Rightarrow> PortNumber 3000
      | Some s \<Rightarrow> if s = [] then PortNumber 3000 else PortString s)"

text \<open>\<^verbatim>\<open>app.get('/', ...)\<close>\<close>

definition root_handler :: handler where
  "root_handler srv now rq = sendFile srv rq 200 ''index.html''"

text \<open>\<^verbatim>\<open>app.get('/api/info', ...)\<close>\<close>

definition info_handler :: handler where
  "info_handler srv now rq =
     res_json srv rq 200
       [(''app'', Some (JString ''Deploy Test Application'')),
        (''version'', Some (JString ''1.0.0'')),
        (''timestamp'', Some (JString (toISOString now))),
        (''environment'', Some (JString (or_default (env srv ''NODE_ENV'') ''development''))),
        (''node_version'', Some (JString (node_version srv)))]"

text \<open>\<^verbatim>\<open>app.get('/api/greet/:name', ...)\<close>. A template literal prints \<^verbatim>\<open>undefined\<close> as
  the word.\<close>

definition greet_handler :: handler where
  "greet_handler srv now rq =
     (let name = (case params rq ''name'' of None \<Rightarrow> ''undefined'' | Some n \<Rightarrow> n) in
      res_json srv rq 200
        [(''message'', Some (JString (''Hello, '' @ name @ ''! Welcome to Azure App Service.''))),
         (''timestamp'', Some (JString (toISOString now)))])"

text \<open>\<^verbatim>\<open>app.post('/api/echo', ...)\<close>\<close>

definition echo_handler :: handler where
  "echo_handler srv now rq =
     res_json srv rq 200
       [(''received'', body rq),
        (''timestamp'', Some (JString (toISOString now)))]"

text \<open>The 404 handler, \<^verbatim>\<open>app.use((req, res) => ...)\<close>\<close>

definition not_found_handler :: handler where
  "not_found_handler srv now rq = sendFile srv rq 404 ''404.html''"

text \<open>The application: the layers in the order in which index.js registers them.\<close>

definition app :: "layer list" where
  "app =
     [Use express_static,
      Use express_json,
      Route GET ''/'' root_handler,
      Route GET ''/api/info'' info_handler,
      Route GET ''/api/greet/:name'' greet_handler,
      Route POST ''/api/echo'' echo_handler,
      Use not_found_handler]"

text \<open>The response of the service to request \<open>rq\<close>, arriving when the clock reads \<open>now\<close>.\<close>

definition handle :: "server \<Rightarrow> time \<Rightarrow> request \<Rightarrow> response" where
  "handle srv now rq = dispatch app srv now None rq"

text \<open>
  \<^verbatim>\<open>app.listen(PORT, ...)\<close>: what the server is bound to, and the two lines that the
  callback logs.
\<close>

fun decimal :: "nat \<Rightarrow> string" where
  "decimal n = (if n < 10 then [digit (int n)] else decimal (n div 10) @ [digit (int n)])"

definition port_text :: "port \<Rightarrow> string" where
  "port_text p = (case p of PortNumber n \<Rightarrow> decimal n | PortString s \<Rightarrow> s)"

record listener =
  bound_to :: port
  console :: "string list"

definition listen :: "server \<Rightarrow> listener" where
  "listen srv =
     \<lparr>bound_to = PORT srv,
      console =
        [''Server is running on port '' @ port_text (PORT srv),
         ''Environment: '' @ or_default (env srv ''NODE_ENV'') ''development'']\<rparr>"

section \<open>Notions used in the statements\<close>

subsection \<open>Timestamps\<close>

text \<open>
  A text conforms to a pattern when it has a decimal digit wherever the pattern has the
  letter \<open>d\<close>, and the pattern's own character everywhere else. The three patterns are
  the ISO 8601 date-time forms that \<^verbatim>\<open>toISOString\<close> can print.
\<close>

fun conforms :: "string \<Rightarrow> string \<Rightarrow> bool" where
  "conforms [] [] = True"
| "conforms (p # ps) (c # cs) =
     ((if p = CHR ''d'' then c \<in> set ''0123456789'' else c = p) \<and> conforms ps cs)"
| "conforms ps cs = False"

definition iso_8601 :: "string \<Rightarrow> bool" where
  "iso_8601 s =
     (conforms ''dddd-dd-ddTdd:dd:dd.dddZ'' s \<or>
      conforms ''+dddddd-dd-ddTdd:dd:dd.dddZ'' s \<or>
      conforms ''-dddddd-dd-ddTdd:dd:dd.dddZ'' s)"

subsection \<open>What happens to a request before the routes\<close>

text \<open>
  The static middleware finds a file for the request. It then answers the request itself
  (lemma \<open>express_static_hit\<close>, for a plain request); otherwise it passes the request on
  (lemma \<open>express_static_miss\<close>).
\<close>

definition served_statically :: "server \<Rightarrow> request \<Rightarrow> bool" where
  "served_statically srv rq =
     ((meth rq = GET \<or> meth rq = HEAD) \<and> static_file srv (path rq) \<noteq> None)"

text \<open>
  The status with which the JSON parser refuses the body, if it does, and otherwise the
  \<^verbatim>\<open>req.body\<close> it leaves; lemmas
  \<open>express_json_rejects\<close> and \<open>express_json_accepts\<close> show that the functions describe
  \<open>express_json\<close>.
\<close>

fun refusal :: "entity \<Rightarrow> nat option" where
  "refusal NoEntity = None"
| "refusal (Entity is_json Oversized) = (if is_json then Some 413 else None)"
| "refusal (Entity is_json Unsupported) = (if is_json then Some 415 else None)"
| "refusal (Entity is_json EmptyText) = None"
| "refusal (Entity is_json InvalidText) = (if is_json then Some 400 else None)"
| "refusal (Entity is_json (JsonText v)) = (if is_json \<and> \<not> strict_json v then Some 400 else None)"

definition rejects :: "entity \<Rightarrow> bool" where
  "rejects e = (refusal e \<noteq> None)"

fun parsed :: "server \<Rightarrow> entity \<Rightarrow> json option" where
  "parsed srv NoEntity = unparsed_body srv"
| "parsed srv (Entity is_json Oversized) = unparsed_body srv"
| "parsed srv (Entity is_json Unsupported) = unparsed_body srv"
| "parsed srv (Entity is_json EmptyText) =
     (if is_json then Some (JObject []) else unparsed_body srv)"
| "parsed srv (Entity is_json InvalidText) = unparsed_body srv"
| "parsed srv (Entity is_json (JsonText v)) = (if is_json then Some v else unparsed_body srv)"

text \<open>
  A layer takes a request when it is a route whose path matches the request's and that
  serves its method, or whose path matches with a parameter that does not decode. A
  request is routed when one of the application's layers takes it.
\<close>

fun takes :: "layer \<Rightarrow> request \<Rightarrow> bool" where
  "takes (Use h) rq = False"
| "takes (Route m pattern h) rq =
     (case match_path pattern (path rq) of
        NoMatch \<Rightarrow> False
      | BadParam \<Rightarrow> True
      | Params kvs \<Rightarrow> handles_method m (meth rq))"

definition routed :: "request \<Rightarrow> bool" where
  "routed rq = list_ex (\<lambda>l. takes l rq) app"

subsection \<open>Reading a response\<close>

text \<open>The property \<open>k\<close> of a JSON object response, and the names of its properties.\<close>

definition field :: "string \<Rightarrow> response \<Rightarrow> json option" where
  "field k r = (case payload r of Json (JObject fs) \<Rightarrow> map_of fs k | _ \<Rightarrow> None)"

definition field_names :: "response \<Rightarrow> string list" where
  "field_names r = (case payload r of Json (JObject fs) \<Rightarrow> map fst fs | _ \<Rightarrow> [])"

text \<open>The response without the \<^verbatim>\<open>timestamp\<close> property of its JSON object, if it has one.\<close>

definition without_timestamp :: "response \<Rightarrow> response" where
  "without_timestamp r =
     (case payload r of
        Json (JObject fs) \<Rightarrow>
          r\<lparr>payload := Json (JObject (filter (\<lambda>kv. fst kv \<noteq> ''timestamp'') fs))\<rparr>
      | _ \<Rightarrow> r)"

text \<open>
  Two steps that differ at most in the timestamp of a response, and a handler whose step
  depends on the clock at most in this way.
\<close>

fun same_step :: "step \<Rightarrow> step \<Rightarrow> bool" where
  "same_step (Respond r) (Respond r') = (without_timestamp r = without_timestamp r')"
| "same_step (Next q) (Next q') = (q = q')"
| "same_step (Throw e) (Throw e') = (e = e')"
| "same_step a b = False"

definition clock_free :: "handler \<Rightarrow> bool" where
  "clock_free h =
     (\<forall>srv t t' rq. unconditional rq \<longrightarrow>
        same_step (h srv t rq) (h srv t' rq) \<and>
        (\<forall>q. h srv t rq = Next q \<longrightarrow> headers q = headers rq))"

fun layer_handler :: "layer \<Rightarrow> handler" where
  "layer_handler (Use h) = h"
| "layer_handler (Route m pattern h) = h"

text \<open>A value that \<^verbatim>\<open>JSON.stringify\<close> writes as it is: every number in it is finite.\<close>

primrec finite_json :: "json \<Rightarrow> bool" where
  "finite_json JNull = True"
| "finite_json (JBool b) = True"
| "finite_json (JNumber n) = (case n of Finite r \<Rightarrow> True | _ \<Rightarrow> False)"
| "finite_json (JString s) = True"
| "finite_json (JArray vs) = list_all finite_json vs"
| "finite_json (JObject fs) = list_all (pred_prod (\<lambda>k. True) finite_json) fs"

subsection \<open>Names and an example deployment\<close>

text \<open>The unreserved characters of RFC 3986, which a URL carries without escaping.\<close>

definition url_safe :: "char \<Rightarrow> bool" where
  "url_safe c =
     (c \<in> set ''ABCDEFGHIJKLMNOPQRSTUVWXYZabcdefghijklmnopqrstuvwxyz0123456789-._~'')"

text \<open>
  A deployment to evaluate the service on: no environment variable set, Node 20, the
  files of the repository's \<^verbatim>\<open>public\<close> directory (their contents abridged), Express 4.
  The entity tag of a JSON body is abridged to its timestamp, where Express hashes the
  whole body, and \<^verbatim>\<open>send\<close> to the one range \<^verbatim>\<open>bytes=0-3\<close>.
\<close>

definition example_tag :: "json \<Rightarrow> string" where
  "example_tag v =
     (case v of
        JObject fs \<Rightarrow>
          (case map_of fs ''timestamp'' of Some (JString s) \<Rightarrow> ''W/'' @ s | _ \<Rightarrow> ''W/0'')
      | _ \<Rightarrow> ''W/0'')"

definition example_server :: server where
  "example_server =
     \<lparr>env = Map.empty,
      node_version = ''v20.11.0'',
      static_file =
        [''/'' \<mapsto> ''<h1>Deploy Test</h1>'',
         ''/index.html'' \<mapsto> ''<h1>Deploy Test</h1>'',
         ''/about.html'' \<mapsto> ''<h1>About</h1>'',
         ''/404.html'' \<mapsto> ''<h1>Not found</h1>'',
         ''/app.js'' \<mapsto> ''// client'',
         ''/styles.css'' \<mapsto> ''body { margin: 0 }''],
      public_file =
        [''index.html'' \<mapsto> ''<h1>Deploy Test</h1>'',
         ''404.html'' \<mapsto> ''<h1>Not found</h1>''],
      unparsed_body = Some (JObject []),
      validators_fresh = (\<lambda>hs v. map_of hs ''if-none-match'' = Some (example_tag v)),
      send_outcome =
        (\<lambda>hs st doc. if map_of hs ''range'' = Some ''bytes=0-3'' then Part (take 4 doc)
           else Whole)\<rparr>"

section \<open>Properties of the clock functions\<close>

lemma div_bounds:
  fixes x k :: int
  assumes "0 < k"
  shows "k * (x div k) \<le> x" and "x < k * (x div k) + k"
proof -
  have "k * (x div k) + x mod k = x"
    by simp
  moreover have "0 \<le> x mod k" and "x mod k < k"
    using assms by simp_all
  ultimately show "k * (x div k) \<le> x" and "x < k * (x div k) + k"
    by linarith+
qed

lemma DayFromYear_parts:
  obtains a b c where "DayFromYear (1970 + Y) = 365 * Y + a - b + c"
    and "4 * a \<le> Y + 1" and "Y + 1 < 4 * a + 4"
    and "100 * b \<le> Y + 69" and "Y + 69 < 100 * b + 100"
    and "400 * c \<le> Y + 369" and "Y + 369 < 400 * c + 400"
proof
  show "DayFromYear (1970 + Y) = 365 * Y + (Y + 1) div 4 - (Y + 69) div 100 + (Y + 369) div 400"
    by (simp add: DayFromYear_def add.commute)
  show "4 * ((Y + 1) div 4) \<le> Y + 1" "Y + 1 < 4 * ((Y + 1) div 4) + 4"
    "100 * ((Y + 69) div 100) \<le> Y + 69" "Y + 69 < 100 * ((Y + 69) div 100) + 100"
    "400 * ((Y + 369) div 400) \<le> Y + 369" "Y + 369 < 400 * ((Y + 369) div 400) + 400"
    by (rule div_bounds; simp)+
qed

lemma YearFromDay_spec:
  "DayFromYear (YearFromDay d) \<le> d \<and> d < DayFromYear (YearFromDay d + 1)"
proof -
  define q where "q = (d * 10000) div 3652425"
  define y where "y = 1970 + q"
  define l u where "l = q - 1" and "u = q + 2"
  have "3652425 * q \<le> d * 10000" "d * 10000 < 3652425 * q + 3652425"
    unfolding q_def by (rule div_bounds; simp)+
  then have q: "3652425 * q \<le> 10000 * d" "10000 * d < 3652425 * q + 3652425"
    by simp_all
  have lo: "DayFromYear (y - 1) \<le> d"
  proof -
    obtain a b c where "DayFromYear (1970 + l) = 365 * l + a - b + c"
      and "4 * a \<le> l + 1" and "100 * b + 100 > l + 69" and "400 * c \<le> l + 369"
      by (rule DayFromYear_parts [of l])
    moreover have "l = q - 1"
      by (simp add: l_def)
    ultimately have "DayFromYear (1970 + l) \<le> d"
      using q(1) by linarith
    then show ?thesis
      by (simp add: y_def l_def)
  qed
  have hi: "d < DayFromYear (y + 1 + 1)"
  proof -
    obtain a b c where "DayFromYear (1970 + u) = 365 * u + a - b + c"
      and "u + 1 < 4 * a + 4" and "100 * b \<le> u + 69" and "u + 369 < 400 * c + 400"
      by (rule DayFromYear_parts [of u])
    moreover have "u = q + 2"
      by (simp add: u_def)
    ultimately have "d < DayFromYear (1970 + u)"
      using q(2) by linarith
    then show ?thesis
      by (simp add: y_def u_def add.assoc)
  qed
  have "YearFromDay d = (if d < DayFromYear y then y - 1
      else if DayFromYear (y + 1) \<le> d then y + 1 else y)"
    by (simp add: YearFromDay_def y_def q_def Let_def)
  moreover have "y - 1 + 1 = y"
    by simp
  ultimately show ?thesis
    using lo hi by (simp only: split: if_split) auto
qed


lemma div_step:
  fixes x k :: int
  assumes "1 < k"
  shows "x div k = (x - 1) div k + (if x mod k = 0 then 1 else 0)"
proof -
  define q r where "q = (x - 1) div k" and "r = (x - 1) mod k"
  have x: "x = k * q + (r + 1)"
    unfolding q_def r_def by (simp add: algebra_simps)
  have r: "0 \<le> r" "r < k"
    using assms unfolding r_def by simp_all
  show ?thesis
  proof (cases "r + 1 < k")
    case True
    have "x div k = q"
      by (rule int_div_pos_eq [OF x]) (use r True in simp_all)
    moreover have "x mod k = r + 1"
      by (rule int_mod_pos_eq [OF x]) (use r True in simp_all)
    ultimately show ?thesis
      using r by (simp add: q_def)
  next
    case False
    then have "x = k * (q + 1) + 0"
      using x r by (simp add: algebra_simps)
    then have "x div k = q + 1" and "x mod k = 0"
      using assms by (simp_all add: algebra_simps)
    then show ?thesis
      by (simp add: q_def)
  qed
qed

lemma mod_shift:
  fixes y k n :: int
  shows "(y - k * n) mod k = y mod k"
proof -
  have "(y - k * n) mod k = (y + k * (- n)) mod k" by simp
  also have "\<dots> = y mod k" by (rule mod_mult_self2)
  finally show ?thesis .
qed

lemma mod_coarser:
  fixes y :: int
  assumes "y mod (k * j) = 0"
  shows "y mod k = 0"
proof -
  from assms have "k * j dvd y" by (simp add: mod_eq_0_iff_dvd)
  then have "k dvd y" by (rule dvd_mult_left)
  then show ?thesis by simp
qed

lemma DayFromYear_step: "DayFromYear (y + 1) = DayFromYear y + DaysInYear y"
proof -
  have m4: "(y - 1968) mod 4 = y mod 4"
    using mod_shift [of y 4 492] by simp
  have m100: "(y - 1900) mod 100 = y mod 100"
    using mod_shift [of y 100 19] by simp
  have m400: "(y - 1600) mod 400 = y mod 400"
    using mod_shift [of y 400 4] by simp
  have s4: "(y - 1968) div 4 = (y - 1969) div 4 + (if y mod 4 = 0 then 1 else 0)"
    using div_step [of 4 "y - 1968"] by (simp add: m4)
  have s100: "(y - 1900) div 100 = (y - 1901) div 100 + (if y mod 100 = 0 then 1 else 0)"
    using div_step [of 100 "y - 1900"] by (simp add: m100)
  have s400: "(y - 1600) div 400 = (y - 1601) div 400 + (if y mod 400 = 0 then 1 else 0)"
    using div_step [of 400 "y - 1600"] by (simp add: m400)
  have d1: "y mod 400 = 0 \<Longrightarrow> y mod 100 = 0"
    using mod_coarser [of y 100 4] by simp
  have d2: "y mod 100 = 0 \<Longrightarrow> y mod 4 = 0"
    using mod_coarser [of y 4 25] by simp
  have "DayFromYear (y + 1) =
      365 * (y - 1969) + (y - 1968) div 4 - (y - 1900) div 100 + (y - 1600) div 400"
    by (simp add: DayFromYear_def)
  then show ?thesis
    using d1 d2 by (auto simp: DayFromYear_def DaysInYear_def s4 s100 s400)
qed

lemma DaysInYear_pos: "365 \<le> DaysInYear y" "DaysInYear y \<le> 366"
  by (simp_all add: DaysInYear_def)

lemma DayFromYear_mono: "y \<le> y' \<Longrightarrow> DayFromYear y \<le> DayFromYear y'"
proof (induction y' rule: int_ge_induct)
  case base
  show ?case by simp
next
  case (step i)
  then show ?case
    using DayFromYear_step [of i] DaysInYear_pos(1) [of i] by linarith
qed

lemma YearFromTime_largest:
  "DayFromYear (YearFromTime t) * msPerDay \<le> t"
  "DayFromYear y * msPerDay \<le> t \<Longrightarrow> y \<le> YearFromTime t"
proof -
  have pos: "0 < msPerDay"
    by (simp add: msPerDay_def)
  have le_iff: "n * msPerDay \<le> t \<longleftrightarrow> n \<le> Day t" for n
  proof
    assume "n * msPerDay \<le> t"
    then have "(n * msPerDay) div msPerDay \<le> t div msPerDay"
      using pos by (rule zdiv_mono1)
    then show "n \<le> Day t"
      using pos by (simp add: Day_def)
  next
    assume "n \<le> Day t"
    then have "n * msPerDay \<le> Day t * msPerDay"
      using pos by (simp add: mult_right_mono)
    also have "\<dots> \<le> t"
      using div_bounds(1) [OF pos, of t] by (simp add: Day_def mult.commute)
    finally show "n * msPerDay \<le> t" .
  qed
  show "DayFromYear (YearFromTime t) * msPerDay \<le> t"
    using YearFromDay_spec [of "Day t"] by (simp add: le_iff YearFromTime_def)
  show "y \<le> YearFromTime t" if "DayFromYear y * msPerDay \<le> t"
  proof (rule ccontr)
    assume "\<not> y \<le> YearFromTime t"
    then have "YearFromTime t + 1 \<le> y" by simp
    then have "DayFromYear (YearFromTime t + 1) \<le> DayFromYear y"
      by (rule DayFromYear_mono)
    moreover have "DayFromYear y \<le> Day t"
      using that by (simp add: le_iff)
    ultimately show False
      using YearFromDay_spec [of "Day t"] by (simp add: YearFromTime_def)
  qed
qed


lemma DayWithinYear_range:
  "0 \<le> DayWithinYear t" "DayWithinYear t < DaysInYear (YearFromTime t)"
  using YearFromDay_spec [of "Day t"] DayFromYear_step [of "YearFromTime t"]
  by (simp_all add: DayWithinYear_def YearFromTime_def)

lemma MonthFromTime_range: "0 \<le> MonthFromTime t" "MonthFromTime t \<le> 11"
  by (simp_all add: MonthFromTime_def Let_def)

lemma DateFromTime_range: "1 \<le> DateFromTime t" "DateFromTime t \<le> 31"
proof -
  define d l where "d = DayWithinYear t" and "l = InLeapYear t"
  have l: "l = 0 \<or> l = 1" and dl: "DaysInYear (YearFromTime t) = 365 + l"
    by (auto simp: l_def InLeapYear_def DaysInYear_def)
  have d: "0 \<le> d" "d < 365 + l"
    using DayWithinYear_range [of t] by (simp_all add: d_def dl)
  have m: "MonthFromTime t =
     (if d < 31 then 0 else if d < 59 + l then 1 else if d < 90 + l then 2
      else if d < 120 + l then 3 else if d < 151 + l then 4 else if d < 181 + l then 5
      else if d < 212 + l then 6 else if d < 243 + l then 7 else if d < 273 + l then 8
      else if d < 304 + l then 9 else if d < 334 + l then 10 else 11)"
    by (simp add: MonthFromTime_def Let_def d_def l_def)
  have "1 \<le> DateFromTime t \<and> DateFromTime t \<le> 31"
    unfolding DateFromTime_def Let_def m d_def [symmetric] l_def [symmetric]
    using l d by (elim disjE) simp_all
  then show "1 \<le> DateFromTime t" "DateFromTime t \<le> 31"
    by simp_all
qed

lemma clock_ranges:
  "0 \<le> HourFromTime t \<and> HourFromTime t < 24 \<and> 0 \<le> MinFromTime t \<and> MinFromTime t < 60 \<and>
   0 \<le> SecFromTime t \<and> SecFromTime t < 60 \<and> 0 \<le> msFromTime t \<and> msFromTime t < 1000"
  by (simp add: HourFromTime_def MinFromTime_def SecFromTime_def msFromTime_def)

lemma digit_is_digit: "digit v \<in> set ''0123456789''"
proof -
  have "nat (v mod 10) < 10"
    by simp
  then have "''0123456789'' ! nat (v mod 10) \<in> set ''0123456789''"
    by (intro nth_mem) simp
  then show ?thesis
    by (simp only: digit_def)
qed

lemma conforms_append:
  "conforms p s \<Longrightarrow> conforms p' s' \<Longrightarrow> conforms (p @ p') (s @ s')"
  by (induction p s rule: conforms.induct) auto

lemma conforms_pad: "conforms (replicate n CHR ''d'') (pad n v)"
proof (induction n arbitrary: v)
  case 0
  show ?case by simp
next
  case (Suc n)
  have "conforms (replicate n CHR ''d'' @ [CHR ''d'']) (pad n (v div 10) @ [digit v])"
    using Suc [of "v div 10"] digit_is_digit [of v] by (intro conforms_append) simp_all
  then show ?case
    by (simp add: replicate_append_same)
qed

lemma conforms_tail:
  "conforms ''-dd-ddTdd:dd:dd.dddZ''
     (''-'' @ pad 2 m @ ''-'' @ pad 2 d @ ''T'' @ pad 2 h @ '':'' @ pad 2 mi @ '':'' @
      pad 2 s @ ''.'' @ pad 3 ms @ ''Z'')"
proof -
  have 2: "conforms ''dd'' (pad 2 v)" for v
    using conforms_pad [of 2 v] by (simp add: numeral_2_eq_2)
  have 3: "conforms ''ddd'' (pad 3 v)" for v
    using conforms_pad [of 3 v] by (simp add: numeral_3_eq_3)
  have "conforms (''-'' @ ''dd'' @ ''-'' @ ''dd'' @ ''T'' @ ''dd'' @ '':'' @ ''dd'' @ '':'' @
      ''dd'' @ ''.'' @ ''ddd'' @ ''Z'')
     (''-'' @ pad 2 m @ ''-'' @ pad 2 d @ ''T'' @ pad 2 h @ '':'' @ pad 2 mi @ '':'' @
      pad 2 s @ ''.'' @ pad 3 ms @ ''Z'')"
    by (intro conforms_append 2 3) simp_all
  then show ?thesis
    by simp
qed

lemma conforms_year:
  "conforms (if 0 \<le> y \<and> y \<le> 9999 then ''dddd'' else if y < 0 then ''-dddddd'' else ''+dddddd'')
     (year_text y)"
proof -
  have 4: "conforms ''dddd'' (pad 4 v)" for v
    using conforms_pad [of 4 v] by (simp add: eval_nat_numeral)
  have 6: "conforms ''dddddd'' (pad 6 v)" for v
    using conforms_pad [of 6 v] by (simp add: eval_nat_numeral)
  have "conforms (''-'' @ ''dddddd'') (''-'' @ pad 6 v)"
    and "conforms (''+'' @ ''dddddd'') (''+'' @ pad 6 v)" for v
    by (intro conforms_append 6, simp)+
  then show ?thesis
    using 4 by (simp add: year_text_def)
qed

lemma toISOString_shape:
  "conforms
     ((if 0 \<le> YearFromTime t \<and> YearFromTime t \<le> 9999 then ''dddd''
       else if YearFromTime t < 0 then ''-dddddd'' else ''+dddddd'') @ ''-dd-ddTdd:dd:dd.dddZ'')
     (toISOString t)"
  unfolding toISOString_def by (intro conforms_append conforms_year conforms_tail)

lemma toISOString_iso_8601: "iso_8601 (toISOString t)"
  using toISOString_shape [of t] by (auto simp: iso_8601_def split: if_splits)

lemma YearFromTime_four_digits:
  assumes "- 62167219200000 \<le> t" "t < 253402300800000"
  shows "0 \<le> YearFromTime t \<and> YearFromTime t \<le> 9999"
proof
  have "DayFromYear 0 * msPerDay \<le> t"
    using assms(1) by (simp add: DayFromYear_def msPerDay_def)
  then show "0 \<le> YearFromTime t"
    by (rule YearFromTime_largest(2))
  show "YearFromTime t \<le> 9999"
  proof (rule ccontr)
    assume "\<not> YearFromTime t \<le> 9999"
    then have "DayFromYear 10000 \<le> DayFromYear (YearFromTime t)"
      by (intro DayFromYear_mono) simp
    then have "DayFromYear 10000 * msPerDay \<le> DayFromYear (YearFromTime t) * msPerDay"
      by (simp add: msPerDay_def)
    also have "\<dots> \<le> t"
      by (rule YearFromTime_largest(1))
    finally show False
      using assms(2) by (simp add: DayFromYear_def msPerDay_def)
  qed
qed

lemma toISOString_common_era:
  assumes "- 62167219200000 \<le> t" "t < 253402300800000"
  shows "conforms ''dddd-dd-ddTdd:dd:dd.dddZ'' (toISOString t)"
  using toISOString_shape [of t] YearFromTime_four_digits [OF assms] by simp

section \<open>Properties of the router and of the handlers\<close>

lemma dispatch_pending: "dispatch ls srv now (Some e) rq = finalhandler (Some e)"
proof (induction ls)
  case Nil
  show ?case by simp
next
  case (Cons l ls)
  show ?case by (cases l) (simp_all add: Cons split: matched.splits)
qed

lemma plain_unconditional: "plain rq \<Longrightarrow> unconditional rq"
  by (simp add: plain_def)

lemma body_update_headers:
  "unconditional (rq\<lparr>body := b\<rparr>) = unconditional rq"
  "plain (rq\<lparr>body := b\<rparr>) = plain rq"
  "unconditional (rq\<lparr>params := ps\<rparr>) = unconditional rq"
  "plain (rq\<lparr>params := ps\<rparr>) = plain rq"
  "fresh srv (rq\<lparr>body := b\<rparr>) st v = fresh srv rq st v"
  "fresh srv (rq\<lparr>params := ps\<rparr>) st v = fresh srv rq st v"
  by (simp_all add: plain_def unconditional_def header_def fresh_def)

lemma unconditional_not_fresh: "unconditional rq \<Longrightarrow> \<not> fresh srv rq st v"
  by (simp add: fresh_def)

lemma post_not_fresh: "meth rq = POST \<Longrightarrow> \<not> fresh srv rq st v"
  by (simp add: fresh_def)

lemma send_plain: "plain rq \<Longrightarrow> send srv rq st doc = Respond \<lparr>status = st, payload = File doc\<rparr>"
  by (simp add: send_def)

lemma express_static_miss:
  "\<not> served_statically srv rq \<Longrightarrow> express_static srv now rq = Next rq"
  by (auto simp: served_statically_def express_static_def split: option.splits)


lemma express_json_rejects:
  "refusal (entity rq) = Some e \<Longrightarrow> express_json srv now rq = Throw e"
  by (cases "entity rq" rule: refusal.cases) (auto simp: express_json_def split: if_splits)

lemma express_json_accepts:
  "\<not> rejects (entity rq) \<Longrightarrow>
   express_json srv now rq = Next (rq\<lparr>body := parsed srv (entity rq)\<rparr>)"
  by (cases "entity rq" rule: refusal.cases)
    (auto simp: express_json_def rejects_def split: if_splits)


lemma handle_rejected:
  "\<not> served_statically srv rq \<Longrightarrow> refusal (entity rq) = Some e \<Longrightarrow>
   handle srv now rq = \<lparr>status = e, payload = DefaultPage\<rparr>"
  by (simp add: handle_def app_def express_static_miss express_json_rejects
      dispatch_pending finalhandler_def)

lemma handle_routes:
  "\<not> served_statically srv rq \<Longrightarrow> \<not> rejects (entity rq) \<Longrightarrow>
   handle srv now rq = dispatch (drop 2 app) srv now None (rq\<lparr>body := parsed srv (entity rq)\<rparr>)"
  by (simp add: handle_def app_def express_static_miss express_json_accepts)

lemma match_info:
  "match_path ''/'' ''/api/info'' = NoMatch"
  "match_path ''/api/info'' ''/api/info'' = Params []"
  "match_path ''/api/greet/:name'' ''/api/info'' = NoMatch"
  "match_path ''/api/echo'' ''/api/info'' = NoMatch"
  by (simp_all add: match_path_def segments_def lower_def)

lemma handle_info_any:
  assumes "meth rq = GET" "path rq = ''/api/info''"
     "\<not> served_statically srv rq" "\<not> rejects (entity rq)"
  shows "handle srv now rq =
     (let v = JObject
       [(''app'', JString ''Deploy Test Application''),
        (''version'', JString ''1.0.0''),
        (''timestamp'', JString (toISOString now)),
        (''environment'', JString (or_default (env srv ''NODE_ENV'') ''development'')),
        (''node_version'', JString (node_version srv))]
      in if fresh srv rq 200 v then \<lparr>status = 304, payload = Empty\<rparr>
         else \<lparr>status = 200, payload = Json v\<rparr>)"
  using assms
  by (simp add: handle_routes app_def match_info handles_method_def
      info_handler_def res_json_def body_update_headers Let_def)

lemma handle_info:
  assumes "meth rq = GET" "path rq = ''/api/info''"
     "\<not> served_statically srv rq" "\<not> rejects (entity rq)" "unconditional rq"
  shows "handle srv now rq = \<lparr>status = 200, payload = Json (JObject
       [(''app'', JString ''Deploy Test Application''),
        (''version'', JString ''1.0.0''),
        (''timestamp'', JString (toISOString now)),
        (''environment'', JString (or_default (env srv ''NODE_ENV'') ''development'')),
        (''node_version'', JString (node_version srv))])\<rparr>"
  using handle_info_any [OF assms(1-4), of now] unconditional_not_fresh [OF assms(5)]
  by (simp add: Let_def)

lemma split_no_sep: "sep \<notin> set s \<Longrightarrow> split sep s = [s]"
  by (induction s) auto

lemma segments_greet:
  assumes "seg \<noteq> []" "CHR ''/'' \<notin> set seg"
  shows "segments (''/api/greet/'' @ seg) = Some [''api'', ''greet'', seg]"
  using assms by (simp add: segments_def split_no_sep)

lemma match_greet:
  assumes "seg \<noteq> []" "CHR ''/'' \<notin> set seg"
  shows "match_path ''/api/greet/:name'' (''/api/greet/'' @ seg) =
     (case decodeURIComponent seg of None \<Rightarrow> BadParam | Some name \<Rightarrow> Params [(''name'', name)])"
proof -
  have p: "segments ''/api/greet/:name'' = Some [''api'', ''greet'', '':name'']"
    by (simp add: segments_def)
  show ?thesis
    unfolding match_path_def p segments_greet [OF assms]
    using assms(1) by (simp add: lower_def split: option.splits)
qed

lemma match_root_greet:
  assumes "seg \<noteq> []" "CHR ''/'' \<notin> set seg"
  shows "match_path ''/'' (''/api/greet/'' @ seg) = NoMatch"
proof -
  have p: "segments ''/'' = Some []"
    by (simp add: segments_def)
  show ?thesis
    unfolding match_path_def p segments_greet [OF assms] by simp
qed

lemma match_info_greet:
  assumes "seg \<noteq> []" "CHR ''/'' \<notin> set seg"
  shows "match_path ''/api/info'' (''/api/greet/'' @ seg) = NoMatch"
proof -
  have p: "segments ''/api/info'' = Some [''api'', ''info'']"
    by (simp add: segments_def)
  show ?thesis
    unfolding match_path_def p segments_greet [OF assms] by (simp add: lower_def)
qed

lemma match_echo_greet:
  assumes "seg \<noteq> []" "CHR ''/'' \<notin> set seg"
  shows "match_path ''/api/echo'' (''/api/greet/'' @ seg) = NoMatch"
proof -
  have p: "segments ''/api/echo'' = Some [''api'', ''echo'']"
    by (simp add: segments_def)
  show ?thesis
    unfolding match_path_def p segments_greet [OF assms] by (simp add: lower_def)
qed

lemma greet_path_matches:
  assumes "path rq = ''/api/greet/'' @ seg" "seg \<noteq> []" "CHR ''/'' \<notin> set seg"
  shows "match_path ''/'' (path rq) = NoMatch"
    and "match_path ''/api/info'' (path rq) = NoMatch"
    and "match_path ''/api/echo'' (path rq) = NoMatch"
    and "match_path ''/api/greet/:name'' (path rq) =
      (case decodeURIComponent seg of None \<Rightarrow> BadParam | Some name \<Rightarrow> Params [(''name'', name)])"
  unfolding assms(1)
  by (rule match_root_greet match_info_greet match_echo_greet match_greet; fact)+

lemma tokens_plain: "CHR ''%'' \<notin> set s \<Longrightarrow> tokens s = Some (map Plain s)"
  by (induction s) auto

lemma utf8_plain: "utf8 (map Plain s) = Some s"
  by (induction s) auto

lemma decodeURIComponent_plain: "CHR ''%'' \<notin> set s \<Longrightarrow> decodeURIComponent s = Some s"
  by (simp add: decodeURIComponent_def tokens_plain utf8_plain)

lemma match_echo: 
  "match_path ''/'' ''/api/echo'' = NoMatch"
  "match_path ''/api/info'' ''/api/echo'' = NoMatch"
  "match_path ''/api/greet/:name'' ''/api/echo'' = NoMatch"
  "match_path ''/api/echo'' ''/api/echo'' = Params []"
  by (simp_all add: match_path_def segments_def lower_def)

lemma same_step_refl: "same_step a a"
  by (cases a) simp_all

lemma defined_fields_Cons:
  "defined_fields ((k, v) # fs) =
     (case v of None \<Rightarrow> defined_fields fs | Some x \<Rightarrow> (k, x) # defined_fields fs)"
  by (cases v) simp_all

lemma iso_example: "toISOString 1700000000000 = ''2023-11-14T22:13:20.000Z''"
  by code_simp

lemma url_safe_plain:
  assumes "\<forall>c \<in> set name. url_safe c"
  shows "CHR ''/'' \<notin> set name" and "CHR ''%'' \<notin> set name"
proof -
  have "\<not> url_safe CHR ''/''" and "\<not> url_safe CHR ''%''"
    by (simp_all add: url_safe_def)
  then show "CHR ''/'' \<notin> set name" and "CHR ''%'' \<notin> set name"
    using assms by blast+
qed

lemma handle_greet_any:
  assumes "meth rq = GET" "path rq = ''/api/greet/'' @ seg"
     "seg \<noteq> []" "CHR ''/'' \<notin> set seg" "decodeURIComponent seg = Some name"
     "\<not> served_statically srv rq" "\<not> rejects (entity rq)"
  shows "handle srv now rq =
     (let v = JObject
       [(''message'', JString (''Hello, '' @ name @ ''! Welcome to Azure App Service.'')),
        (''timestamp'', JString (toISOString now))]
      in if fresh srv rq 200 v then \<lparr>status = 304, payload = Empty\<rparr>
         else \<lparr>status = 200, payload = Json v\<rparr>)"
  using assms(1,5,6,7)
  by (simp add: handle_routes app_def greet_path_matches [OF assms(2,3,4)]
      handles_method_def greet_handler_def res_json_def body_update_headers Let_def)

lemma handle_greet:
  assumes "meth rq = GET" "path rq = ''/api/greet/'' @ seg"
     "seg \<noteq> []" "CHR ''/'' \<notin> set seg" "decodeURIComponent seg = Some name"
     "\<not> served_statically srv rq" "\<not> rejects (entity rq)" "unconditional rq"
  shows "handle srv now rq = \<lparr>status = 200, payload = Json (JObject
       [(''message'', JString (''Hello, '' @ name @ ''! Welcome to Azure App Service.'')),
        (''timestamp'', JString (toISOString now))])\<rparr>"
  using handle_greet_any [OF assms(1-7), of now] unconditional_not_fresh [OF assms(8)]
  by (simp add: Let_def)

lemma handle_greet_undecodable:
  assumes "path rq = ''/api/greet/'' @ seg"
     "seg \<noteq> []" "CHR ''/'' \<notin> set seg" "decodeURIComponent seg = None"
     "\<not> served_statically srv rq" "\<not> rejects (entity rq)"
  shows "handle srv now rq = \<lparr>status = 400, payload = DefaultPage\<rparr>"
  using assms(4,5,6)
  by (simp add: handle_routes app_def greet_path_matches [OF assms(1,2,3)]
      dispatch_pending finalhandler_def)

lemma handle_echo:
  assumes "meth rq = POST" "path rq = ''/api/echo''" "\<not> rejects (entity rq)"
  shows "handle srv now rq = \<lparr>status = 200, payload = Json (stringified (JObject
       (defined_fields [(''received'', parsed srv (entity rq)),
        (''timestamp'', Some (JString (toISOString now)))])))\<rparr>"
proof -
  have "\<not> served_statically srv rq"
    using assms(1) by (simp add: served_statically_def)
  then show ?thesis
    using assms
    by (simp add: handle_routes app_def match_echo handles_method_def echo_handler_def
        res_json_def post_not_fresh Let_def del: stringified.simps defined_fields.simps)
qed

lemma stringified_finite: "finite_json v \<Longrightarrow> stringified v = v"
proof (induction v)
  case (JNumber n)
  then show ?case by (cases n) simp_all
next
  case (JArray vs)
  then show ?case by (simp add: list_all_iff map_idI)
next
  case (JObject fs)
  have "map_prod id stringified kv = kv" if "kv \<in> set fs" for kv
  proof (cases kv)
    case (Pair k v)
    with that JObject.prems have "finite_json v"
      by (auto simp: list_all_iff)
    moreover have "v \<in> Basic_BNFs.snds kv"
      using Pair by simp
    ultimately have "stringified v = v"
      using JObject.IH that by blast
    with Pair show ?thesis by simp
  qed
  then show ?case by (simp add: map_idI)
qed simp_all

lemma unrouted_fallback:
  assumes "\<not> routed rq" "plain rq"
  shows "dispatch (drop 2 app) srv now None (rq\<lparr>body := b\<rparr>) =
     (case public_file srv ''404.html'' of
        None \<Rightarrow> \<lparr>status = 404, payload = DefaultPage\<rparr>
      | Some doc \<Rightarrow> \<lparr>status = 404, payload = File doc\<rparr>)"
  using assms
  by (simp add: routed_def app_def not_found_handler_def sendFile_def send_plain
      body_update_headers dispatch_pending finalhandler_def
      split: matched.splits option.splits)


lemma handle_unrouted:
  assumes "\<not> served_statically srv rq" and "\<not> rejects (entity rq)" and "\<not> routed rq"
    and "plain rq" and "public_file srv ''404.html'' = Some doc"
  shows "handle srv now rq = \<lparr>status = 404, payload = File doc\<rparr>"
  using assms by (simp add: handle_routes unrouted_fallback)




lemma unconditional_headers: "headers q = headers rq \<Longrightarrow> unconditional q = unconditional rq"
  by (simp add: unconditional_def header_def)

lemma dispatch_clock_free:
  assumes "\<forall>l \<in> set ls. clock_free (layer_handler l)" and "unconditional rq"
  shows "without_timestamp (dispatch ls srv t err rq) = without_timestamp (dispatch ls srv t' err rq)"
  using assms
proof (induction ls arbitrary: err rq)
  case Nil
  show ?case by simp
next
  case (Cons l ls)
  then have IH: "\<And>err rq. unconditional rq \<Longrightarrow>
      without_timestamp (dispatch ls srv t err rq) = without_timestamp (dispatch ls srv t' err rq)"
    by simp
  note u = \<open>unconditional rq\<close>
  from Cons.prems have "clock_free (layer_handler l)"
    by simp
  then have cf: "\<And>rq. unconditional rq \<Longrightarrow>
      same_step (layer_handler l srv t rq) (layer_handler l srv t' rq) \<and>
      (\<forall>q. layer_handler l srv t rq = Next q \<longrightarrow> headers q = headers rq)"
    unfolding clock_free_def by blast
  have h: "same_step (layer_handler l srv t rq) (layer_handler l srv t' rq)"
    if "unconditional rq" for rq
    using cf [OF that] by blast
  have n: "unconditional q"
    if "unconditional rq" and "layer_handler l srv t rq = Next q" for rq q
  proof -
    from cf [OF that(1)] that(2) have "headers q = headers rq"
      by blast
    then have "unconditional q = unconditional rq"
      by (rule unconditional_headers)
    with that(1) show ?thesis
      by simp
  qed
  show ?case
  proof (cases l)
    case (Use f)
    show ?thesis
    proof (cases err)
      case None
      have hs: "same_step (f srv t rq) (f srv t' rq)"
        using h [OF u] by (simp add: Use)
      have nq: "unconditional q" if "f srv t rq = Next q" for q
        using n [OF u, of q] that by (simp add: Use)
      show ?thesis
      proof (cases "f srv t rq")
        case (Respond r)
        with hs show ?thesis
          by (cases "f srv t' rq") (simp_all add: Use None)
      next
        case (Next q)
        with hs have "f srv t' rq = Next q"
          by (cases "f srv t' rq") simp_all
        with Next show ?thesis
          using IH [OF nq [OF Next], of None] by (simp add: Use None)
      next
        case (Throw e)
        with hs have "f srv t' rq = Throw e"
          by (cases "f srv t' rq") simp_all
        with Throw show ?thesis
          using IH [OF u, of "Some e"] by (simp add: Use None)
      qed
    next
      case (Some e)
      then show ?thesis
        using IH [OF u, of err] by (simp add: Use)
    qed
  next
    case (Route m pattern f)
    show ?thesis
    proof (cases "match_path pattern (path rq)")
      case NoMatch
      then show ?thesis
        using IH [OF u, of err] by (simp add: Route)
    next
      case BadParam
      then show ?thesis
        using IH [OF u, of "case err of None \<Rightarrow> Some 400 | Some e \<Rightarrow> Some e"]
        by (simp add: Route)
    next
      case (Params kvs)
      let ?rq = "rq\<lparr>params := map_of kvs\<rparr>"
      have u': "unconditional ?rq"
        using u by (simp add: body_update_headers)
      show ?thesis
      proof (cases "err = None \<and> handles_method m (meth rq)")
        case True
        have hs: "same_step (f srv t ?rq) (f srv t' ?rq)"
          using h [OF u'] by (simp add: Route)
        have nq: "unconditional q" if "f srv t ?rq = Next q" for q
          using n [OF u', of q] that by (simp add: Route)
        show ?thesis
        proof (cases "f srv t ?rq")
          case (Respond r)
          with hs show ?thesis
            by (cases "f srv t' ?rq") (simp_all add: Route Params True)
        next
          case (Next q)
          with hs have "f srv t' ?rq = Next q"
            by (cases "f srv t' ?rq") simp_all
          with Next show ?thesis
            using IH [OF nq [OF Next], of None] by (simp add: Route Params True)
        next
          case (Throw e)
          with hs have "f srv t' ?rq = Throw e"
            by (cases "f srv t' ?rq") simp_all
          with Throw show ?thesis
            using IH [OF u, of "Some e"] by (simp add: Route Params True)
        qed
      next
        case False
        then show ?thesis
          using IH [OF u, of err] IH [OF u, of None]
          by (cases err) (simp_all add: Route Params)
      qed
    qed
  qed
qed

lemma send_not_Next: "send srv rq st doc \<noteq> Next q"
  by (simp add: send_def split: sent.splits)

lemma clock_free_middlewares:
  "clock_free express_static" "clock_free express_json" "clock_free root_handler"
  "clock_free not_found_handler"
  by (auto simp: clock_free_def express_static_def express_json_def root_handler_def
      not_found_handler_def sendFile_def same_step_refl send_not_Next
      split: option.splits entity.splits content.splits step.splits)

lemma clock_free_json_handlers:
  "clock_free info_handler" "clock_free greet_handler" "clock_free echo_handler"
  by (simp_all add: clock_free_def info_handler_def greet_handler_def echo_handler_def
      res_json_def without_timestamp_def unconditional_not_fresh defined_fields_Cons Let_def
      split: option.splits)

lemma handle_clock:
  "unconditional rq \<Longrightarrow>
   without_timestamp (handle srv t rq) = without_timestamp (handle srv t' rq)"
  unfolding handle_def
  by (rule dispatch_clock_free)
    (simp_all add: app_def clock_free_middlewares clock_free_json_handlers)

lemma iso_epoch: "toISOString 0 = ''1970-01-01T00:00:00.000Z''"
  by code_simp

lemma incoming_plain: "plain (incoming m p e)" "unconditional (incoming m p e)"
  by (simp_all add: plain_def unconditional_def header_def incoming_def)

section \<open>The claims\<close>

subsection \<open>C1: a malformed body on the echo endpoint\<close>

text \<open>
  C1 says that a POST to \<^verbatim>\<open>/api/echo\<close> with an empty body or with invalid JSON gets a
  400-class status. An empty body does not: the JSON parser takes an empty text for
  \<^verbatim>\<open>{}\<close>, and the handler echoes it with status 200. Nor does a text that is not sent as
  \<^verbatim>\<open>application/json\<close>: the parser does not read it.
\<close>

theorem echo_empty_body_counterexample:
  "handle example_server 1700000000000 (incoming POST ''/api/echo'' (Entity True EmptyText)) =
     \<lparr>status = 200, payload = Json (JObject
        [(''received'', JObject []), (''timestamp'', JString ''2023-11-14T22:13:20.000Z'')])\<rparr> \<and>
   handle example_server 1700000000000 (incoming POST ''/api/echo'' (Entity False InvalidText)) =
     \<lparr>status = 200, payload = Json (JObject
        [(''received'', JObject []), (''timestamp'', JString ''2023-11-14T22:13:20.000Z'')])\<rparr>"
  using handle_echo [of "incoming POST ''/api/echo'' (Entity True EmptyText)" example_server
      1700000000000]
    handle_echo [of "incoming POST ''/api/echo'' (Entity False InvalidText)" example_server
      1700000000000]
  by (simp add: incoming_def iso_example example_server_def rejects_def)

text \<open>
  C1, amended: every POST request to \<^verbatim>\<open>/api/echo\<close> whose body is sent as
  \<^verbatim>\<open>application/json\<close>, is not empty and is not valid JSON is answered with a 400-class
  status (400, or 413 or 415 when the parser refuses the body unread) by the framework's
  error page; the echo handler does not run, so no echo is produced.
\<close>

theorem echo_malformed_json_rejected:
  assumes "meth rq = POST" and "path rq = ''/api/echo''"
    and "entity rq = Entity True sent_body" and "sent_body \<noteq> EmptyText"
    and "\<forall>v. sent_body \<noteq> JsonText v"
  shows "400 \<le> status (handle srv now rq) \<and> status (handle srv now rq) < 500 \<and>
     payload (handle srv now rq) = DefaultPage"
proof -
  have s: "\<not> served_statically srv rq"
    using assms(1) by (simp add: served_statically_def)
  have "refusal (entity rq) = Some 413 \<or> refusal (entity rq) = Some 415 \<or>
      refusal (entity rq) = Some 400"
    using assms(3,4,5) by (cases sent_body) simp_all
  then show ?thesis
    using handle_rejected [OF s, of 413 now] handle_rejected [OF s, of 415 now]
      handle_rejected [OF s, of 400 now]
    by auto
qed

text \<open>The amended C1 at a request of the example deployment.\<close>

theorem echo_malformed_json_rejected_witness:
  "handle example_server 1700000000000 (incoming POST ''/api/echo'' (Entity True InvalidText)) =
     \<lparr>status = 400, payload = DefaultPage\<rparr> \<and>
   400 \<le> status (handle example_server 1700000000000
     (incoming POST ''/api/echo'' (Entity True InvalidText))) \<and>
   status (handle example_server 1700000000000
     (incoming POST ''/api/echo'' (Entity True InvalidText))) < 500"
proof -
  let ?rq = "incoming POST ''/api/echo'' (Entity True InvalidText)"
  have "meth ?rq = POST" and "path ?rq = ''/api/echo''"
    and "entity ?rq = Entity True InvalidText" and "InvalidText \<noteq> EmptyText"
    and "\<forall>v. InvalidText \<noteq> JsonText v"
    by (simp_all add: incoming_def)
  note w = echo_malformed_json_rejected [OF this, of example_server 1700000000000]
  have "handle example_server 1700000000000 ?rq = \<lparr>status = 400, payload = DefaultPage\<rparr>"
    by (rule handle_rejected) (simp_all add: incoming_def served_statically_def)
  with w show ?thesis
    by simp
qed

subsection \<open>C2: the fields of \<^verbatim>\<open>/api/info\<close>\<close>

text \<open>
  C2 names the fifth field \<^verbatim>\<open>runtime_version\<close>. The handler calls it \<^verbatim>\<open>node_version\<close>
  (and the page's script \<^verbatim>\<open>public/app.js\<close> reads \<^verbatim>\<open>data.node_version\<close>). And not every
  GET request gets a JSON object: a conditional one (\<^verbatim>\<open>If-None-Match: *\<close>) gets status 304
  without a body.
\<close>

theorem info_fields_counterexample:
  "set (field_names (handle example_server 1700000000000 (incoming GET ''/api/info'' NoEntity))) \<noteq>
     {''app'', ''version'', ''timestamp'', ''environment'', ''runtime_version''} \<and>
   handle example_server 1700000000000
     ((incoming GET ''/api/info'' NoEntity)\<lparr>headers := [(''if-none-match'', ''*'')]\<rparr>) =
     \<lparr>status = 304, payload = Empty\<rparr>"
proof
  let ?r = "handle example_server 1700000000000 (incoming GET ''/api/info'' NoEntity)"
  have names: "field_names ?r = [''app'', ''version'', ''timestamp'', ''environment'', ''node_version'']"
    using handle_info [of "incoming GET ''/api/info'' NoEntity" example_server 1700000000000]
    by (simp add: incoming_def served_statically_def example_server_def field_names_def
        rejects_def unconditional_def header_def)
  show "set (field_names ?r) \<noteq>
    {''app'', ''version'', ''timestamp'', ''environment'', ''runtime_version''}"
  proof
    assume eq: "set (field_names ?r) =
      {''app'', ''version'', ''timestamp'', ''environment'', ''runtime_version''}"
    have "''runtime_version'' \<in> set (field_names ?r)"
      unfolding eq by simp
    then show False
      unfolding names by simp
  qed
  let ?rq = "(incoming GET ''/api/info'' NoEntity)\<lparr>headers := [(''if-none-match'', ''*'')]\<rparr>"
  show "handle example_server 1700000000000 ?rq = \<lparr>status = 304, payload = Empty\<rparr>"
    using handle_info_any [of ?rq example_server 1700000000000]
    by (simp add: incoming_def served_statically_def example_server_def rejects_def
        fresh_def unconditional_def header_def Let_def)
qed

text \<open>
  C2, amended: every unconditional GET request to \<^verbatim>\<open>/api/info\<close> (one without
  \<^verbatim>\<open>If-None-Match\<close> and \<^verbatim>\<open>If-Modified-Since\<close>) that reaches the routes (no static file is
  served for it and the JSON parser does not refuse its body) is answered with status 200
  and a JSON object whose fields are exactly \<^verbatim>\<open>app\<close>, \<^verbatim>\<open>version\<close>, \<^verbatim>\<open>timestamp\<close>,
  \<^verbatim>\<open>environment\<close> and \<^verbatim>\<open>node_version\<close>; \<^verbatim>\<open>timestamp\<close> is the clock's reading printed by
  \<^verbatim>\<open>toISOString\<close>, an ISO 8601 date-time in UTC.
\<close>

theorem info_fields:
  assumes "meth rq = GET" and "path rq = ''/api/info''"
    and "\<not> served_statically srv rq" and "\<not> rejects (entity rq)" and "unconditional rq"
  shows "handle srv now rq = \<lparr>status = 200, payload = Json (JObject
       [(''app'', JString ''Deploy Test Application''),
        (''version'', JString ''1.0.0''),
        (''timestamp'', JString (toISOString now)),
        (''environment'', JString (or_default (env srv ''NODE_ENV'') ''development'')),
        (''node_version'', JString (node_version srv))])\<rparr> \<and>
     set (field_names (handle srv now rq)) =
       {''app'', ''version'', ''timestamp'', ''environment'', ''node_version''} \<and>
     iso_8601 (toISOString now)"
  using handle_info [OF assms, of now] toISOString_iso_8601 [of now]
  by (simp add: field_names_def)

text \<open>The amended C2 at a request of the example deployment.\<close>

theorem info_fields_witness:
  "handle example_server 1700000000000 (incoming GET ''/api/info'' NoEntity) =
     \<lparr>status = 200, payload = Json (JObject
       [(''app'', JString ''Deploy Test Application''),
        (''version'', JString ''1.0.0''),
        (''timestamp'', JString ''2023-11-14T22:13:20.000Z''),
        (''environment'', JString ''development''),
        (''node_version'', JString ''v20.11.0'')])\<rparr> \<and>
   set (field_names (handle example_server 1700000000000 (incoming GET ''/api/info'' NoEntity))) =
     {''app'', ''version'', ''timestamp'', ''environment'', ''node_version''} \<and>
   iso_8601 ''2023-11-14T22:13:20.000Z''"
proof -
  let ?rq = "incoming GET ''/api/info'' NoEntity"
  have "meth ?rq = GET" and "path ?rq = ''/api/info''"
    and "\<not> served_statically example_server ?rq" and "\<not> rejects (entity ?rq)"
    and "unconditional ?rq"
    by (simp_all add: incoming_def served_statically_def example_server_def rejects_def
        unconditional_def header_def)
  note w = info_fields [OF this, of 1700000000000]
  have v: "or_default (env example_server ''NODE_ENV'') ''development'' = ''development''"
    "node_version example_server = ''v20.11.0''"
    by (simp_all add: example_server_def or_default_def)
  show ?thesis
    using w unfolding iso_example v .
qed

subsection \<open>C3: the greeting\<close>

text \<open>
  C3 gives the message as \<^verbatim>\<open>Hello, {name}! Welcome.\<close> The handler's template is
  \<^verbatim>\<open>Hello, ${name}! Welcome to Azure App Service.\<close> And a conditional GET request
  (\<^verbatim>\<open>If-None-Match: *\<close>) gets status 304 without a body.
\<close>

theorem greet_message_counterexample:
  "field ''message'' (handle example_server 1700000000000 (incoming GET ''/api/greet/Bob'' NoEntity)) \<noteq>
     Some (JString ''Hello, Bob! Welcome.'') \<and>
   handle example_server 1700000000000
     ((incoming GET ''/api/greet/Bob'' NoEntity)\<lparr>headers := [(''if-none-match'', ''*'')]\<rparr>) =
     \<lparr>status = 304, payload = Empty\<rparr>"
proof -
  let ?rq = "incoming GET ''/api/greet/Bob'' NoEntity"
  let ?rq' = "?rq\<lparr>headers := [(''if-none-match'', ''*'')]\<rparr>"
  have a: "meth ?rq = GET" "path ?rq = ''/api/greet/'' @ ''Bob''" "''Bob'' \<noteq> []"
    "CHR ''/'' \<notin> set ''Bob''" "decodeURIComponent ''Bob'' = Some ''Bob''"
    "\<not> served_statically example_server ?rq" "\<not> rejects (entity ?rq)" "unconditional ?rq"
    by (simp_all add: incoming_def served_statically_def example_server_def
        decodeURIComponent_plain rejects_def unconditional_def header_def)
  have b: "meth ?rq' = GET" "path ?rq' = ''/api/greet/'' @ ''Bob''" "''Bob'' \<noteq> []"
    "CHR ''/'' \<notin> set ''Bob''" "decodeURIComponent ''Bob'' = Some ''Bob''"
    "\<not> served_statically example_server ?rq'" "\<not> rejects (entity ?rq')"
    by (simp_all add: incoming_def served_statically_def example_server_def
        decodeURIComponent_plain rejects_def)
  have "fresh example_server ?rq' 200 v" for v
    by (simp add: fresh_def unconditional_def header_def incoming_def)
  with handle_greet_any [OF b, of 1700000000000]
  have "handle example_server 1700000000000 ?rq' = \<lparr>status = 304, payload = Empty\<rparr>"
    by (simp add: Let_def)
  moreover from handle_greet [OF a, of 1700000000000]
  have "field ''message'' (handle example_server 1700000000000 ?rq) \<noteq>
      Some (JString ''Hello, Bob! Welcome.'')"
    by (simp add: field_def)
  ultimately show ?thesis
    by (simp only: simp_thms)
qed

text \<open>
  C3, amended: for every non-empty path segment that decodes to \<open>name\<close>, an unconditional
  GET request to \<^verbatim>\<open>/api/greet/{segment}\<close> that reaches the routes is answered with status
  200 and the JSON object of the two fields \<^verbatim>\<open>message\<close>, equal to
  \<^verbatim>\<open>Hello, {name}! Welcome to Azure App Service.\<close>, and \<^verbatim>\<open>timestamp\<close>.
\<close>

theorem greet_message:
  assumes "meth rq = GET" and "path rq = ''/api/greet/'' @ seg"
    and "seg \<noteq> []" and "CHR ''/'' \<notin> set seg" and "decodeURIComponent seg = Some name"
    and "\<not> served_statically srv rq" and "\<not> rejects (entity rq)" and "unconditional rq"
  shows "handle srv now rq = \<lparr>status = 200, payload = Json (JObject
       [(''message'', JString (''Hello, '' @ name @ ''! Welcome to Azure App Service.'')),
        (''timestamp'', JString (toISOString now))])\<rparr>"
  using assms by (rule handle_greet)

text \<open>The amended C3 at a name with an escaped non-ASCII letter and an escaped space.\<close>

theorem greet_message_witness:
  "decodeURIComponent ''J%C3%BCrgen%20M'' = Some (''J'' @ [CHR 0xC3, CHR 0xBC] @ ''rgen M'') \<and>
   handle example_server 1700000000000 (incoming GET ''/api/greet/J%C3%BCrgen%20M'' NoEntity) =
     \<lparr>status = 200, payload = Json (JObject
       [(''message'', JString (''Hello, J'' @ [CHR 0xC3, CHR 0xBC] @ ''rgen M! Welcome to Azure App Service.'')),
        (''timestamp'', JString ''2023-11-14T22:13:20.000Z'')])\<rparr>"
proof -
  let ?seg = "''J%C3%BCrgen%20M''"
  let ?rq = "incoming GET ''/api/greet/J%C3%BCrgen%20M'' NoEntity"
  have d: "decodeURIComponent ?seg = Some (''J'' @ [CHR 0xC3, CHR 0xBC] @ ''rgen M'')"
    by (simp add: decodeURIComponent_def escape_def hex_digit_def between_def)
  have "meth ?rq = GET" and "path ?rq = ''/api/greet/'' @ ?seg" and "?seg \<noteq> []"
    and "CHR ''/'' \<notin> set ?seg"
    and "\<not> served_statically example_server ?rq" and "\<not> rejects (entity ?rq)"
    and "unconditional ?rq"
    by (simp_all add: incoming_def served_statically_def example_server_def rejects_def
        unconditional_def header_def)
  from greet_message [OF this(1-4) d this(5-7), of 1700000000000] d show ?thesis
    by (simp add: iso_example)
qed

subsection \<open>C4: what the echo endpoint returns\<close>

text \<open>
  C4 says that \<^verbatim>\<open>received\<close> equals the parsed body whatever its JSON shape. The parser
  runs in strict mode, the default: a body that is a JSON string, number, boolean or
  \<^verbatim>\<open>null\<close> is refused with status 400. A body that is not sent as \<^verbatim>\<open>application/json\<close>
  is not parsed: \<^verbatim>\<open>received\<close> is then not the body. And the body \<^verbatim>\<open>[1e999]\<close> parses to
  an array of an infinity, which \<^verbatim>\<open>res.json\<close> writes as \<^verbatim>\<open>[null]\<close>.
\<close>

theorem echo_string_body_counterexample:
  "handle example_server 1700000000000
     (incoming POST ''/api/echo'' (Entity True (JsonText (JString ''hi'')))) =
   \<lparr>status = 400, payload = DefaultPage\<rparr> \<and>
   field ''received'' (handle example_server 1700000000000
     (incoming POST ''/api/echo'' (Entity False (JsonText (JObject [(''message'', JString ''hi'')]))))) =
   Some (JObject []) \<and>
   field ''received'' (handle example_server 1700000000000
     (incoming POST ''/api/echo'' (Entity True (JsonText (JArray [JNumber PlusInfinity]))))) =
   Some (JArray [JNull])"
proof -
  let ?a = "incoming POST ''/api/echo'' (Entity True (JsonText (JString ''hi'')))"
  let ?b = "incoming POST ''/api/echo'' (Entity False (JsonText (JObject [(''message'', JString ''hi'')])))"
  let ?c = "incoming POST ''/api/echo'' (Entity True (JsonText (JArray [JNumber PlusInfinity])))"
  have "handle example_server 1700000000000 ?a = \<lparr>status = 400, payload = DefaultPage\<rparr>"
    by (rule handle_rejected) (simp_all add: incoming_def served_statically_def)
  moreover have "field ''received'' (handle example_server 1700000000000 ?b) = Some (JObject [])"
    using handle_echo [of ?b example_server 1700000000000]
    by (simp add: incoming_def example_server_def field_def rejects_def)
  moreover have "field ''received'' (handle example_server 1700000000000 ?c) = Some (JArray [JNull])"
    using handle_echo [of ?c example_server 1700000000000]
    by (simp add: incoming_def field_def rejects_def)
  ultimately show ?thesis
    by (simp only: simp_thms)
qed

text \<open>
  C4, amended: for every POST request to \<^verbatim>\<open>/api/echo\<close> whose body is sent as
  \<^verbatim>\<open>application/json\<close> and parses to a JSON object or array in which every number is
  finite (and none is \<^verbatim>\<open>-0\<close>), the response has status 200 and its \<^verbatim>\<open>received\<close> field
  equals the parsed value; in particular the body \<^verbatim>\<open>{"message":"hi"}\<close> yields \<^verbatim>\<open>received\<close>
  equal to \<^verbatim>\<open>{"message":"hi"}\<close>.
\<close>

theorem echo_received:
  assumes "meth rq = POST" and "path rq = ''/api/echo''"
    and "entity rq = Entity True (JsonText v)" and "strict_json v" and "finite_json v"
  shows "handle srv now rq = \<lparr>status = 200, payload = Json (JObject
       [(''received'', v), (''timestamp'', JString (toISOString now))])\<rparr> \<and>
     field ''received'' (handle srv now rq) = Some v"
proof -
  have "\<not> rejects (entity rq)"
    using assms(3,4) by (simp add: rejects_def)
  from handle_echo [OF assms(1,2) this, of srv now] show ?thesis
    using assms(3) stringified_finite [OF assms(5)] by (simp add: field_def)
qed

text \<open>The amended C4 at the body \<^verbatim>\<open>{"message":"hi"}\<close>.\<close>

theorem echo_received_witness:
  "handle example_server 1700000000000
     (incoming POST ''/api/echo'' (Entity True (JsonText (JObject [(''message'', JString ''hi'')])))) =
   \<lparr>status = 200, payload = Json (JObject
     [(''received'', JObject [(''message'', JString ''hi'')]),
      (''timestamp'', JString ''2023-11-14T22:13:20.000Z'')])\<rparr> \<and>
   field ''received'' (handle example_server 1700000000000
     (incoming POST ''/api/echo'' (Entity True (JsonText (JObject [(''message'', JString ''hi'')]))))) =
   Some (JObject [(''message'', JString ''hi'')])"
proof -
  let ?v = "JObject [(''message'', JString ''hi'')]"
  let ?rq = "incoming POST ''/api/echo'' (Entity True (JsonText ?v))"
  have "meth ?rq = POST" and "path ?rq = ''/api/echo''"
    and "entity ?rq = Entity True (JsonText ?v)" and "strict_json ?v" and "finite_json ?v"
    by (simp_all add: incoming_def)
  note w = echo_received [OF this, of example_server 1700000000000]
  show ?thesis
    using w unfolding iso_example .
qed

subsection \<open>C5: the fallback\<close>




subsection \<open>C6: the greeting contains the name\<close>

text \<open>
  C6 says that for every URL-safe name the message that \<^verbatim>\<open>GET /api/greet/{name}\<close>
  returns contains the name. For the empty name no message is returned: the route does
  not match \<^verbatim>\<open>/api/greet/\<close>, and the answer is the 404 document. Nor is one returned when
  the JSON parser refuses the request's body.
\<close>

theorem greet_empty_name_counterexample:
  "handle example_server 1700000000000 (incoming GET ''/api/greet/'' NoEntity) =
     \<lparr>status = 404, payload = File ''<h1>Not found</h1>''\<rparr> \<and>
   handle example_server 1700000000000 (incoming GET ''/api/greet/Bob'' (Entity True InvalidText)) =
     \<lparr>status = 400, payload = DefaultPage\<rparr>"
proof -
  let ?rq = "incoming GET ''/api/greet/'' NoEntity"
  let ?rq' = "incoming GET ''/api/greet/Bob'' (Entity True InvalidText)"
  have "\<not> served_statically example_server ?rq" and "\<not> rejects (entity ?rq)"
    and "\<not> routed ?rq" and "plain ?rq"
    and "public_file example_server ''404.html'' = Some ''<h1>Not found</h1>''"
    by (simp_all add: served_statically_def incoming_def example_server_def rejects_def
        routed_def app_def match_path_def segments_def lower_def plain_def unconditional_def
        header_def)
  then have "handle example_server 1700000000000 ?rq =
      \<lparr>status = 404, payload = File ''<h1>Not found</h1>''\<rparr>"
    by (rule handle_unrouted)
  moreover have "handle example_server 1700000000000 ?rq' = \<lparr>status = 400, payload = DefaultPage\<rparr>"
    by (rule handle_rejected)
      (simp_all add: served_statically_def incoming_def example_server_def)
  ultimately show ?thesis
    by (simp only: simp_thms)
qed

text \<open>
  C6, amended: for every non-empty name of URL-safe characters, an unconditional GET
  request to \<^verbatim>\<open>/api/greet/{name}\<close> that reaches the routes (no static file of that path,
  and a body, if any, that the JSON parser does not refuse) is answered with a
  \<^verbatim>\<open>message\<close> field that contains the name.
\<close>

theorem greet_contains_name:
  assumes "name \<noteq> []" and "\<forall>c \<in> set name. url_safe c"
    and "meth rq = GET" and "path rq = ''/api/greet/'' @ name"
    and "\<not> served_statically srv rq" and "\<not> rejects (entity rq)" and "unconditional rq"
  shows "\<exists>m. field ''message'' (handle srv now rq) = Some (JString m) \<and> sublist name m"
proof -
  have "decodeURIComponent name = Some name"
    using url_safe_plain(2) [OF assms(2)] by (rule decodeURIComponent_plain)
  from handle_greet [OF assms(3,4,1) url_safe_plain(1) [OF assms(2)] this assms(5,6,7), of now]
  have "field ''message'' (handle srv now rq) =
      Some (JString (''Hello, '' @ name @ ''! Welcome to Azure App Service.''))"
    by (simp add: field_def)
  moreover have "sublist name (''Hello, '' @ name @ ''! Welcome to Azure App Service.'')"
    by (rule sublist_appendI)
  ultimately show ?thesis
    by blast
qed

text \<open>The amended C6 at a name that uses every kind of URL-safe character.\<close>

theorem greet_contains_name_witness:
  "list_all url_safe ''Ada-L_99.x~'' \<and>
   field ''message'' (handle example_server 1700000000000 (incoming GET ''/api/greet/Ada-L_99.x~'' NoEntity)) =
     Some (JString ''Hello, Ada-L_99.x~! Welcome to Azure App Service.'') \<and>
   sublist ''Ada-L_99.x~'' ''Hello, Ada-L_99.x~! Welcome to Azure App Service.''"
proof -
  let ?name = "''Ada-L_99.x~''"
  let ?rq = "incoming GET ''/api/greet/Ada-L_99.x~'' NoEntity"
  have safe: "list_all url_safe ?name"
    by (simp add: url_safe_def)
  then have "?name \<noteq> []" and "\<forall>c \<in> set ?name. url_safe c"
    and "meth ?rq = GET" and "path ?rq = ''/api/greet/'' @ ?name"
    and "\<not> served_statically example_server ?rq" and "\<not> rejects (entity ?rq)"
    and "unconditional ?rq"
    by (simp_all add: incoming_def served_statically_def example_server_def list_all_iff
        rejects_def unconditional_def header_def)
  from greet_contains_name [OF this, of 1700000000000]
  obtain m where m: "field ''message'' (handle example_server 1700000000000 ?rq) = Some (JString m)"
    and sub: "sublist ?name m"
    by blast
  have "field ''message'' (handle example_server 1700000000000 ?rq) =
      Some (JString ''Hello, Ada-L_99.x~! Welcome to Azure App Service.'')"
    using handle_greet [of ?rq ?name ?name example_server 1700000000000]
    by (simp add: incoming_def served_statically_def example_server_def
        decodeURIComponent_plain field_def rejects_def unconditional_def header_def)
  with m sub safe show ?thesis
    by simp
qed

subsection \<open>C7: the environment field\<close>




subsection \<open>C8: the clock is the only varying input\<close>

text \<open>
  C8 says that repeating a GET request yields the same JSON apart from the timestamp.
  The entity tag of a JSON response is computed from its body, timestamp included: a GET
  request whose \<^verbatim>\<open>If-None-Match\<close> is the tag of the body at one reading of the clock gets
  status 304 without a body at that reading, and status 200 with the JSON object at
  another.
\<close>

theorem conditional_get_counterexample:
  "handle example_server 0
     ((incoming GET ''/api/info'' NoEntity)
        \<lparr>headers := [(''if-none-match'', ''W/1970-01-01T00:00:00.000Z'')]\<rparr>) =
     \<lparr>status = 304, payload = Empty\<rparr> \<and>
   status (handle example_server 1700000000000
     ((incoming GET ''/api/info'' NoEntity)
        \<lparr>headers := [(''if-none-match'', ''W/1970-01-01T00:00:00.000Z'')]\<rparr>)) = 200 \<and>
   without_timestamp (handle example_server 0
     ((incoming GET ''/api/info'' NoEntity)
        \<lparr>headers := [(''if-none-match'', ''W/1970-01-01T00:00:00.000Z'')]\<rparr>)) \<noteq>
   without_timestamp (handle example_server 1700000000000
     ((incoming GET ''/api/info'' NoEntity)
        \<lparr>headers := [(''if-none-match'', ''W/1970-01-01T00:00:00.000Z'')]\<rparr>))"
proof -
  let ?rq = "(incoming GET ''/api/info'' NoEntity)
        \<lparr>headers := [(''if-none-match'', ''W/1970-01-01T00:00:00.000Z'')]\<rparr>"
  have rq: "meth ?rq = GET" "path ?rq = ''/api/info''"
    "\<not> served_statically example_server ?rq" "\<not> rejects (entity ?rq)"
    by (simp_all add: incoming_def served_statically_def example_server_def rejects_def)
  have a: "handle example_server 0 ?rq = \<lparr>status = 304, payload = Empty\<rparr>"
    using handle_info_any [OF rq, of 0]
    by (simp add: fresh_def unconditional_def header_def incoming_def example_server_def
        example_tag_def iso_epoch Let_def)
  have b: "status (handle example_server 1700000000000 ?rq) = 200"
    using handle_info_any [OF rq, of 1700000000000]
    by (simp add: fresh_def unconditional_def header_def incoming_def example_server_def
        example_tag_def iso_example Let_def)
  have "status (without_timestamp r) = status r" for r
    by (simp add: without_timestamp_def split: payload.splits json.splits)
  with a b have "status (without_timestamp (handle example_server 0 ?rq)) = 304"
    and "status (without_timestamp (handle example_server 1700000000000 ?rq)) = 200"
    by simp_all
  then have "without_timestamp (handle example_server 0 ?rq) \<noteq>
      without_timestamp (handle example_server 1700000000000 ?rq)"
    by auto
  with a b show ?thesis
    by (simp only: simp_thms)
qed

text \<open>
  C8, amended: the responses to the same unconditional request (one without
  \<^verbatim>\<open>If-None-Match\<close> and \<^verbatim>\<open>If-Modified-Since\<close>) under the same configuration at two
  readings of the clock are equal once the \<^verbatim>\<open>timestamp\<close> field is left out. This holds
  for every such request, the GET requests to \<^verbatim>\<open>/api/info\<close> and \<^verbatim>\<open>/api/greet/{name}\<close>
  among them.
\<close>

theorem responses_differ_only_in_timestamp:
  assumes "unconditional rq"
  shows "without_timestamp (handle srv t rq) = without_timestamp (handle srv t' rq)"
  using assms by (rule handle_clock)

text \<open>The amended C8 at a greeting requested in 1970 and in 2023.\<close>

theorem responses_differ_only_in_timestamp_witness:
  "unconditional (incoming GET ''/api/greet/Bob'' NoEntity) \<and>
   without_timestamp (handle example_server 0 (incoming GET ''/api/greet/Bob'' NoEntity)) =
   without_timestamp (handle example_server 1700000000000 (incoming GET ''/api/greet/Bob'' NoEntity))"
  using responses_differ_only_in_timestamp [OF incoming_plain(2)] incoming_plain(2)
  by blast

subsection \<open>C9: the listening port\<close>

text \<open>
  C9: the server is bound to what the \<^verbatim>\<open>PORT\<close> environment variable holds, and to port
  3000 when the variable is unset. (An empty \<^verbatim>\<open>PORT\<close> is falsy and gives 3000 as well.)
\<close>

theorem listen_port:
  "(env srv ''PORT'' = None \<longrightarrow>
      bound_to (listen srv) = PortNumber 3000 \<and>
      hd (console (listen srv)) = ''Server is running on port 3000'') \<and>
   (\<forall>p. env srv ''PORT'' = Some p \<and> p \<noteq> [] \<longrightarrow>
      bound_to (listen srv) = PortString p \<and>
      hd (console (listen srv)) = ''Server is running on port '' @ p)"
proof -
  have "decimal 3000 = ''3000''"
    by (simp add: digit_def)
  then show ?thesis
    by (simp add: listen_def PORT_def port_text_def)
qed

text \<open>C9 with the variable unset and with the variable set.\<close>

theorem listen_port_witness:
  "bound_to (listen example_server) = PortNumber 3000 \<and>
   bound_to (listen (example_server\<lparr>env := [''PORT'' \<mapsto> ''8080'']\<rparr>)) = PortString ''8080''"
proof -
  have "env example_server ''PORT'' = None"
    by (simp add: example_server_def)
  moreover have "env (example_server\<lparr>env := [''PORT'' \<mapsto> ''8080'']\<rparr>) ''PORT'' = Some ''8080'' \<and> ''8080'' \<noteq> []"
    by simp
  ultimately show ?thesis
    using listen_port [of example_server]
      listen_port [of "example_server\<lparr>env := [''PORT'' \<mapsto> ''8080'']\<rparr>"]
    by blast
qed

subsection \<open>C10: a defined path with another method\<close>




end
